theory Spec2Isabelle
  imports
    Complex_Main
    "HOL-Library.AList"
    "HOL-Library.Char_ord"
    "HOL-Library.List_Lexorder"
    "HOL-Library.Product_Lexorder"
begin

section \<open>Gelar Rasa: launch registry, source of volume, portfolio impact, forecasting\<close>

text \<open>
  A shallow embedding of \<^verbatim>\<open>src/phase4/new_launch.py\<close>, \<^verbatim>\<open>src/phase4/sov_analysis.py\<close>,
  \<^verbatim>\<open>src/phase4/portfolio_impact.py\<close> and of the ensembling and forecasting steps of
  \<^verbatim>\<open>src/phase3/time_series_forecast.py\<close>.

  Conventions of the embedding:
  \<^item> Python floats (revenue, percentages, weights) are real numbers: rounding and NaN are
    outside the model.
  \<^item> A pandas Timestamp is a calendar date \<open>(year, month, day)\<close>, ordered lexicographically.
  \<^item> A pandas DataFrame built by the code from a list of dicts is a \<open>frame\<close>: the list of
    column labels and the list of rows. The integrated sales table and the product master
    are given tables with their schema, so they are plain lists of rows.
  \<^item> A Python dict keyed by product id is an association list in insertion order;
    assigning to an existing key keeps its position (\<open>AList.update\<close>).
  \<^item> A raised exception is the \<open>Inl\<close> branch of a sum.
\<close>

subsection \<open>Dates and month offsets\<close>

type_synonym date = "int \<times> int \<times> int"

definition is_leap :: "int \<Rightarrow> bool" where
  "is_leap y \<longleftrightarrow> (y mod 4 = 0 \<and> y mod 100 \<noteq> 0) \<or> y mod 400 = 0"

definition days_in_month :: "int \<Rightarrow> int \<Rightarrow> int" where
  "days_in_month y m =
     (if m = 2 then (if is_leap y then 29 else 28)
      else if m = 4 \<or> m = 6 \<or> m = 9 \<or> m = 11 then 30 else 31)"

text \<open>
  \<^verbatim>\<open>d + pd.DateOffset(months=n)\<close> (and \<^verbatim>\<open>d - pd.DateOffset(months=n)\<close> with \<open>- n\<close>):
  the month moves by \<open>n\<close>, the day is clipped to the last day of the month reached.
\<close>

definition add_months :: "date \<Rightarrow> int \<Rightarrow> date" where
  "add_months d n =
     (case d of (y, m, dd) \<Rightarrow>
        let t = y * 12 + (m - 1) + n;
            y' = t div 12;
            m' = t mod 12 + 1
        in (y', m', min dd (days_in_month y' m')))"

text \<open>\<^verbatim>\<open>date.dt.to_period('M')\<close>: the calendar month of a date.\<close>

definition to_period_M :: "date \<Rightarrow> int \<times> int" where
  "to_period_M d = (case d of (y, m, dd) \<Rightarrow> (y, m))"

definition in_window :: "date \<Rightarrow> date \<Rightarrow> date \<Rightarrow> bool" where
  "in_window lo hi d \<longleftrightarrow> lo \<le> d \<and> d < hi"

subsection \<open>Tables\<close>

datatype py_error = KeyError string | ValueError

record 'a frame =
  columns :: "string list"
  rows :: "'a list"

text \<open>
  \<^verbatim>\<open>pd.DataFrame(list_of_dicts)\<close>: the columns are the keys of the dicts, so an empty
  list gives a frame without columns. \<^verbatim>\<open>pd.DataFrame()\<close> is the same empty frame.
\<close>

definition DataFrame :: "string list \<Rightarrow> 'a list \<Rightarrow> 'a frame" where
  "DataFrame cols rs = (if rs = [] then \<lparr>columns = [], rows = []\<rparr> else \<lparr>columns = cols, rows = rs\<rparr>)"

definition empty_frame :: "'a frame" where
  "empty_frame = \<lparr>columns = [], rows = []\<rparr>"

text \<open>
  \<^verbatim>\<open>sort_values(by, ascending=False)\<close> orders as pandas' \<^verbatim>\<open>nargsort\<close> does: the rows are
  reversed, sorted in ascending order of the key, and reversed again. The sort is taken
  to be stable; no theorem below depends on the order of rows with equal keys.
\<close>

definition sort_desc :: "('a \<Rightarrow> 'k::linorder) \<Rightarrow> 'a list \<Rightarrow> 'a list" where
  "sort_desc key xs = rev (sort_key key (rev xs))"

text \<open>
  On a frame, pandas first looks the label up among the columns and raises
  \<^verbatim>\<open>KeyError(by)\<close> when it is missing, also on a frame without rows.
\<close>

definition sort_values_desc :: "string \<Rightarrow> ('a \<Rightarrow> 'k::linorder) \<Rightarrow> 'a frame \<Rightarrow> py_error + 'a frame" where
  "sort_values_desc by key df =
     (if by \<notin> set (columns df) then Inl (KeyError by)
      else Inr (df\<lparr>rows := sort_desc key (rows df)\<rparr>))"

text \<open>\<^verbatim>\<open>Series.unique()\<close>: the distinct values in order of first appearance.\<close>

definition unique :: "'a list \<Rightarrow> 'a list" where
  "unique xs = rev (remdups (rev xs))"

text \<open>A row of the integrated sales table (sales merged with the product master).\<close>

record txn =
  t_transaction_id :: string
  t_product_id :: string
  t_date :: date
  t_units_sold :: int
  t_revenue :: real
  t_type :: string
  t_brand :: string

text \<open>A row of the product master.\<close>

record product =
  p_product_id :: string
  p_product_name :: string
  p_brand :: string
  p_type :: string
  p_launch_date :: date

text \<open>
  A row of the launch performance table of \<^verbatim>\<open>_calculate_launch_performance\<close>; its top rows
  are the launches handed to the SOV and portfolio analyses.
\<close>

record launch =
  l_product_id :: string
  l_product_name :: string
  l_brand :: string
  l_type :: string
  l_launch_date :: date
  l_total_revenue :: real
  l_total_units :: int
  l_total_transactions :: nat
  l_growth_rate_pct :: real
  l_market_share_pct :: real
  l_performance_score :: real

definition launch_columns :: "string list" where
  "launch_columns = [''product_id'', ''product_name'', ''brand'', ''type'', ''launch_date'',
     ''total_revenue'', ''total_units'', ''total_transactions'', ''growth_rate_pct'',
     ''market_share_pct'', ''performance_score'']"

definition sum_revenue :: "txn list \<Rightarrow> real" where
  "sum_revenue rs = sum_list (map t_revenue rs)"

definition sum_units :: "txn list \<Rightarrow> int" where
  "sum_units rs = sum_list (map t_units_sold rs)"

text \<open>
  \<^verbatim>\<open>rows.groupby('product_id')['revenue'].sum()\<close>: one entry per product id that has a
  row, in sorted order of the ids.
\<close>

definition groupby_product_revenue :: "txn list \<Rightarrow> (string \<times> real) list" where
  "groupby_product_revenue rs =
     map (\<lambda>p. (p, sum_revenue (filter (\<lambda>r. t_product_id r = p) rs)))
       (sort (remdups (map t_product_id rs)))"

text \<open>\<^verbatim>\<open>rows.groupby(date.dt.to_period('M'))['revenue'].sum()\<close>: one value per calendar month with a row.\<close>

definition groupby_month_revenue :: "txn list \<Rightarrow> real list" where
  "groupby_month_revenue rs =
     map (\<lambda>ym. sum_revenue (filter (\<lambda>r. to_period_M (t_date r) = ym) rs))
       (sort (remdups (map (\<lambda>r. to_period_M (t_date r)) rs)))"

subsection \<open>Source of volume (sov\_analysis.py)\<close>

record cannibalized_product =
  cp_product_id :: string
  cp_revenue_loss :: real
  cp_pct_change :: real

record sov_record =
  new_product_id :: string
  new_product_name :: string
  launch_date :: date
  new_product_revenue :: real
  new_product_units :: int
  cannibalized_revenue :: real
  cannibalized_products :: "cannibalized_product list"
  competitor_loss :: real
  market_expansion :: real
  cannibalization_pct :: real
  competitor_pct :: real
  expansion_pct :: real

text \<open>
  The loop of lines 122 to 131 over \<^verbatim>\<open>pre_revenue.index\<close>, with the running total and
  the list built so far as accumulator.
\<close>

fun cannibalization ::
  "(string \<times> real) list \<Rightarrow> (string \<times> real) list \<Rightarrow> real \<times> cannibalized_product list
     \<Rightarrow> real \<times> cannibalized_product list" where
  "cannibalization [] post_revenue acc = acc"
| "cannibalization ((product_id, pre) # rest) post_revenue (running, prods) =
     (case map_of post_revenue product_id of
        None \<Rightarrow> cannibalization rest post_revenue (running, prods)
      | Some post \<Rightarrow>
          (let revenue_change = post - pre in
           if revenue_change < 0 then
             cannibalization rest post_revenue
               (running + \<bar>revenue_change\<bar>,
                prods @ [\<lparr>cp_product_id = product_id,
                          cp_revenue_loss = \<bar>revenue_change\<bar>,
                          cp_pct_change = (if pre > 0 then revenue_change / pre * 100 else 0)\<rparr>])
           else cannibalization rest post_revenue (running, prods)))"

text \<open>The rows of other products of the launch's category and brand (lines 98 to 102).\<close>

definition existing_products :: "txn list \<Rightarrow> launch \<Rightarrow> txn list" where
  "existing_products df l =
     filter (\<lambda>r. t_type r = l_type l \<and> t_brand r = l_brand l \<and> t_product_id r \<noteq> l_product_id l) df"

definition pre_window :: "int \<Rightarrow> date \<Rightarrow> date \<Rightarrow> bool" where
  "pre_window window_months ld = in_window (add_months ld (- window_months)) ld"

definition post_window :: "int \<Rightarrow> date \<Rightarrow> date \<Rightarrow> bool" where
  "post_window window_months ld = in_window ld (add_months ld window_months)"

definition pre_revenue :: "txn list \<Rightarrow> int \<Rightarrow> launch \<Rightarrow> (string \<times> real) list" where
  "pre_revenue df window_months l =
     groupby_product_revenue
       (filter (\<lambda>r. pre_window window_months (l_launch_date l) (t_date r)) (existing_products df l))"

definition post_revenue :: "txn list \<Rightarrow> int \<Rightarrow> launch \<Rightarrow> (string \<times> real) list" where
  "post_revenue df window_months l =
     groupby_product_revenue
       (filter (\<lambda>r. post_window window_months (l_launch_date l) (t_date r)) (existing_products df l))"

text \<open>The body of the loop of \<^verbatim>\<open>_analyze_sov_by_launch\<close> for one launch (lines 77 to 187).\<close>

definition analyze_launch :: "txn list \<Rightarrow> int \<Rightarrow> launch \<Rightarrow> sov_record" where
  "analyze_launch df window_months l =
     (let ld = l_launch_date l;
          pre = pre_window window_months ld;
          post = post_window window_months ld;
          new_product_sales = filter (\<lambda>r. t_product_id r = l_product_id l \<and> post (t_date r)) df;
          npr = sum_revenue new_product_sales;
          npu = sum_units new_product_sales;
          cann = cannibalization (pre_revenue df window_months l) (post_revenue df window_months l) (0, []);
          competitor_products = filter (\<lambda>r. t_type r = l_type l \<and> t_brand r \<noteq> l_brand l) df;
          pre_competitor = sum_revenue (filter (\<lambda>r. pre (t_date r)) competitor_products);
          post_competitor = sum_revenue (filter (\<lambda>r. post (t_date r)) competitor_products);
          closs = (if pre_competitor > post_competitor then pre_competitor - post_competitor else 0);
          pre_market_total = sum_revenue (filter (\<lambda>r. pre (t_date r) \<and> t_type r = l_type l) df);
          post_market_total = sum_revenue (filter (\<lambda>r. post (t_date r) \<and> t_type r = l_type l) df);
          expansion = post_market_total - pre_market_total - npr;
          total_sov = npr
      in \<lparr>new_product_id = l_product_id l,
          new_product_name = l_product_name l,
          launch_date = ld,
          new_product_revenue = npr,
          new_product_units = npu,
          cannibalized_revenue = fst cann,
          cannibalized_products = snd cann,
          competitor_loss = closs,
          market_expansion = expansion,
          cannibalization_pct = (if total_sov > 0 then fst cann / total_sov * 100 else 0),
          competitor_pct = (if total_sov > 0 then closs / total_sov * 100 else 0),
          expansion_pct = (if total_sov > 0 then expansion / total_sov * 100 else 0)\<rparr>)"

definition analyze_sov_by_launch :: "txn list \<Rightarrow> launch list \<Rightarrow> int \<Rightarrow> (string \<times> sov_record) list" where
  "analyze_sov_by_launch df launches window_months =
     fold (\<lambda>l acc. AList.update (l_product_id l) (analyze_launch df window_months l) acc) launches []"

text \<open>\<^verbatim>\<open>_calculate_sov_breakdown\<close>: one row per entry of the dict, as a DataFrame.\<close>

record breakdown_row =
  b_product_id :: string
  b_product_name :: string
  b_total_revenue :: real
  b_cannibalization_pct :: real
  b_competitor_pct :: real
  b_expansion_pct :: real
  b_cannibalization_revenue :: real
  b_competitor_revenue :: real
  b_expansion_revenue :: real

definition breakdown_columns :: "string list" where
  "breakdown_columns = [''product_id'', ''product_name'', ''total_revenue'', ''cannibalization_pct'',
     ''competitor_pct'', ''expansion_pct'', ''cannibalization_revenue'', ''competitor_revenue'',
     ''expansion_revenue'']"

definition calculate_sov_breakdown :: "(string \<times> sov_record) list \<Rightarrow> breakdown_row frame" where
  "calculate_sov_breakdown sov =
     DataFrame breakdown_columns
       (map (\<lambda>(product_id, sov_data).
          \<lparr>b_product_id = product_id,
           b_product_name = new_product_name sov_data,
           b_total_revenue = new_product_revenue sov_data,
           b_cannibalization_pct = cannibalization_pct sov_data,
           b_competitor_pct = competitor_pct sov_data,
           b_expansion_pct = expansion_pct sov_data,
           b_cannibalization_revenue = cannibalized_revenue sov_data,
           b_competitor_revenue = competitor_loss sov_data,
           b_expansion_revenue = market_expansion sov_data\<rparr>) sov)"

record significance_test =
  st_target_product_id :: string
  st_revenue_loss :: real
  st_pct_change :: real
  st_t_statistic :: real
  st_p_value :: real
  st_is_significant :: bool

text \<open>
  \<^verbatim>\<open>_perform_significance_tests\<close> (lines 212 to 259). \<^verbatim>\<open>scipy.stats.ttest_ind\<close> is a
  library function: it is the parameter \<open>ttest_ind\<close>, from the two samples to the pair
  of statistic and p-value. The window is the local \<^verbatim>\<open>window_months = 6\<close> of line 218.
\<close>

definition monthly_pre :: "txn list \<Rightarrow> int \<Rightarrow> date \<Rightarrow> string \<Rightarrow> real list" where
  "monthly_pre df window_months ld target_id =
     groupby_month_revenue
       (filter (\<lambda>r. pre_window window_months ld (t_date r)) (filter (\<lambda>r. t_product_id r = target_id) df))"

definition monthly_post :: "txn list \<Rightarrow> int \<Rightarrow> date \<Rightarrow> string \<Rightarrow> real list" where
  "monthly_post df window_months ld target_id =
     groupby_month_revenue
       (filter (\<lambda>r. post_window window_months ld (t_date r)) (filter (\<lambda>r. t_product_id r = target_id) df))"

definition test_target ::
  "(real list \<Rightarrow> real list \<Rightarrow> real \<times> real) \<Rightarrow> txn list \<Rightarrow> date \<Rightarrow> cannibalized_product
     \<Rightarrow> significance_test list" where
  "test_target ttest_ind df ld target =
     (let window_months = 6;
          target_id = cp_product_id target;
          pre_period = monthly_pre df window_months ld target_id;
          post_period = monthly_post df window_months ld target_id
      in if length pre_period > 1 \<and> length post_period > 1 then
           (case ttest_ind pre_period post_period of (t_stat, p_val) \<Rightarrow>
              [\<lparr>st_target_product_id = target_id,
                st_revenue_loss = cp_revenue_loss target,
                st_pct_change = cp_pct_change target,
                st_t_statistic = t_stat,
                st_p_value = p_val,
                st_is_significant = (p_val < 0.05)\<rparr>])
         else [])"

definition perform_significance_tests ::
  "(real list \<Rightarrow> real list \<Rightarrow> real \<times> real) \<Rightarrow> txn list \<Rightarrow> (string \<times> sov_record) list
     \<Rightarrow> (string \<times> significance_test list) list" where
  "perform_significance_tests ttest_ind df sov =
     map (\<lambda>(product_id, sov_data).
            (product_id,
             concat (map (test_target ttest_ind df (launch_date sov_data)) (cannibalized_products sov_data))))
       sov"

record sov_results =
  sov_by_launch :: "(string \<times> sov_record) list"
  sov_breakdown :: "breakdown_row frame"
  significance_tests :: "(string \<times> significance_test list) list"

text \<open>\<^verbatim>\<open>SOVAnalyzer.execute\<close> (lines 28 to 70), without the printing.\<close>

definition SOVAnalyzer_execute ::
  "(real list \<Rightarrow> real list \<Rightarrow> real \<times> real) \<Rightarrow> txn list \<Rightarrow> launch frame \<Rightarrow> int \<Rightarrow> sov_results" where
  "SOVAnalyzer_execute ttest_ind df new_launches window_months =
     (if length (rows new_launches) = 0 \<or> ''product_id'' \<notin> set (columns new_launches) then
        \<lparr>sov_by_launch = [], sov_breakdown = empty_frame, significance_tests = []\<rparr>
      else
        (let sov = analyze_sov_by_launch df (rows new_launches) window_months in
         if length sov > 0 then
           \<lparr>sov_by_launch = sov,
            sov_breakdown = calculate_sov_breakdown sov,
            significance_tests = perform_significance_tests ttest_ind df sov\<rparr>
         else
           \<lparr>sov_by_launch = sov, sov_breakdown = empty_frame, significance_tests = []\<rparr>))"

subsection \<open>Net portfolio impact (portfolio\_impact.py)\<close>

text \<open>\<^verbatim>\<open>roi\<close> is a float or \<^verbatim>\<open>float('inf')\<close>.\<close>

datatype roi = Finite real | Infinite

record impact_row =
  i_product_id :: string
  i_product_name :: string
  i_launch_date :: date
  i_new_product_revenue :: real
  i_lost_revenue :: real
  i_net_impact :: real
  i_net_impact_pct :: real
  i_portfolio_growth_pct :: real
  i_launch_type :: string
  i_roi :: roi

definition impact_columns :: "string list" where
  "impact_columns = [''product_id'', ''product_name'', ''launch_date'', ''new_product_revenue'',
     ''lost_revenue'', ''net_impact'', ''net_impact_pct'', ''portfolio_growth_pct'',
     ''launch_type'', ''roi'']"

text \<open>
  The body of the loop of \<^verbatim>\<open>_calculate_portfolio_impact\<close> (lines 68 to 131); \<open>None\<close> is
  the \<^verbatim>\<open>continue\<close> of line 81.
\<close>

definition launch_impact :: "txn list \<Rightarrow> (string \<times> sov_record) list \<Rightarrow> int \<Rightarrow> launch \<Rightarrow> impact_row option" where
  "launch_impact df sov window_months l =
     (case map_of sov (l_product_id l) of
        None \<Rightarrow> None
      | Some sov_data \<Rightarrow>
          (let ld = l_launch_date l;
               npr = new_product_revenue sov_data;
               lost_revenue = cannibalized_revenue sov_data;
               net_impact = npr - lost_revenue;
               net_impact_pct = (if npr > 0 then net_impact / npr * 100 else 0);
               pre_portfolio_revenue = sum_revenue (filter (\<lambda>r. pre_window window_months ld (t_date r)
                  \<and> t_type r = l_type l \<and> t_brand r = l_brand l) df);
               post_portfolio_revenue = sum_revenue (filter (\<lambda>r. post_window window_months ld (t_date r)
                  \<and> t_type r = l_type l \<and> t_brand r = l_brand l) df);
               portfolio_growth = (if pre_portfolio_revenue > 0
                  then (post_portfolio_revenue - pre_portfolio_revenue) / pre_portfolio_revenue * 100 else 0);
               ltype = (if net_impact > 0 then ''Additive''
                        else if net_impact < - npr * 0.1 then ''Substitutive''
                        else ''Neutral'')
           in Some \<lparr>i_product_id = l_product_id l,
                    i_product_name = l_product_name l,
                    i_launch_date = ld,
                    i_new_product_revenue = npr,
                    i_lost_revenue = lost_revenue,
                    i_net_impact = net_impact,
                    i_net_impact_pct = net_impact_pct,
                    i_portfolio_growth_pct = portfolio_growth,
                    i_launch_type = ltype,
                    i_roi = (if lost_revenue > 0 then Finite (net_impact / lost_revenue * 100) else Infinite)\<rparr>))"

definition calculate_portfolio_impact ::
  "txn list \<Rightarrow> launch frame \<Rightarrow> (string \<times> sov_record) list \<Rightarrow> int \<Rightarrow> py_error + impact_row frame" where
  "calculate_portfolio_impact df new_launches sov window_months =
     sort_values_desc ''net_impact'' i_net_impact
       (DataFrame impact_columns (List.map_filter (launch_impact df sov window_months) (rows new_launches)))"

record group_row =
  g_key :: string
  g_num_launches :: nat
  g_total_new_revenue :: real
  g_total_lost_revenue :: real
  g_net_impact :: real
  g_net_impact_pct :: real

text \<open>The inner loop of lines 148 to 153 (and 182 to 187): the two running totals.\<close>

definition group_totals :: "(string \<times> sov_record) list \<Rightarrow> launch list \<Rightarrow> real \<times> real" where
  "group_totals sov ls =
     fold (\<lambda>l (total_new_revenue, total_lost_revenue).
             case map_of sov (l_product_id l) of
               None \<Rightarrow> (total_new_revenue, total_lost_revenue)
             | Some sov_data \<Rightarrow>
                 (total_new_revenue + new_product_revenue sov_data,
                  total_lost_revenue + cannibalized_revenue sov_data))
       ls (0, 0)"

definition group_impact :: "(string \<times> sov_record) list \<Rightarrow> string \<Rightarrow> launch list \<Rightarrow> group_row" where
  "group_impact sov k ls =
     (case group_totals sov ls of (total_new_revenue, total_lost_revenue) \<Rightarrow>
        (let net_impact = total_new_revenue - total_lost_revenue;
             net_impact_pct = (if total_new_revenue > 0 then net_impact / total_new_revenue * 100 else 0)
         in \<lparr>g_key = k,
             g_num_launches = length ls,
             g_total_new_revenue = total_new_revenue,
             g_total_lost_revenue = total_lost_revenue,
             g_net_impact = net_impact,
             g_net_impact_pct = net_impact_pct\<rparr>))"

definition category_columns :: "string list" where
  "category_columns = [''category'', ''num_launches'', ''total_new_revenue'', ''total_lost_revenue'',
     ''net_impact'', ''net_impact_pct'']"

definition brand_columns :: "string list" where
  "brand_columns = [''brand'', ''num_launches'', ''total_new_revenue'', ''total_lost_revenue'',
     ''net_impact'', ''net_impact_pct'']"

text \<open>
  \<^verbatim>\<open>_calculate_category_impact\<close> (lines 138 to 170). \<^verbatim>\<open>self.new_launches['type']\<close> raises
  \<^verbatim>\<open>KeyError\<close> on a frame without that column.
\<close>

definition calculate_category_impact ::
  "launch frame \<Rightarrow> (string \<times> sov_record) list \<Rightarrow> py_error + group_row frame" where
  "calculate_category_impact new_launches sov =
     (if ''type'' \<notin> set (columns new_launches) then Inl (KeyError ''type'')
      else sort_values_desc ''net_impact'' g_net_impact
        (DataFrame category_columns
           (map (\<lambda>category. group_impact sov category (filter (\<lambda>l. l_type l = category) (rows new_launches)))
              (unique (map l_type (rows new_launches))))))"

text \<open>\<^verbatim>\<open>_calculate_brand_impact\<close> (lines 172 to 204).\<close>

definition calculate_brand_impact ::
  "launch frame \<Rightarrow> (string \<times> sov_record) list \<Rightarrow> py_error + group_row frame" where
  "calculate_brand_impact new_launches sov =
     (if ''brand'' \<notin> set (columns new_launches) then Inl (KeyError ''brand'')
      else sort_values_desc ''net_impact'' g_net_impact
        (DataFrame brand_columns
           (map (\<lambda>brand. group_impact sov brand (filter (\<lambda>l. l_brand l = brand) (rows new_launches)))
              (unique (map l_brand (rows new_launches))))))"

record classification_row =
  c_impact :: impact_row
  c_performance_rating :: string

text \<open>
  \<^verbatim>\<open>_classify_launches\<close> (lines 206 to 219): the selected columns of each impact row are
  kept as the row itself, with the rating added.
\<close>

definition classify_launches :: "impact_row frame \<Rightarrow> classification_row list" where
  "classify_launches portfolio_impact =
     map (\<lambda>r. \<lparr>c_impact = r,
               c_performance_rating =
                 (if i_net_impact r > 0 then ''Excellent''
                  else if i_net_impact r < - 1000000 then ''Poor'' else ''Moderate'')\<rparr>)
       (rows portfolio_impact)"

record impact_results =
  portfolio_impact :: "impact_row frame"
  category_impact :: "group_row frame"
  brand_impact :: "group_row frame"
  launch_classification :: "classification_row list"

text \<open>
  \<^verbatim>\<open>PortfolioImpactAnalyzer.execute\<close> (lines 30 to 61), without the printing: the four
  steps in order, an exception of one ending the run.
\<close>

definition PortfolioImpactAnalyzer_execute ::
  "txn list \<Rightarrow> launch frame \<Rightarrow> sov_results \<Rightarrow> int \<Rightarrow> py_error + impact_results" where
  "PortfolioImpactAnalyzer_execute df new_launches sov_res window_months =
     (case calculate_portfolio_impact df new_launches (sov_by_launch sov_res) window_months of
        Inl e \<Rightarrow> Inl e
      | Inr pim \<Rightarrow>
          (case calculate_category_impact new_launches (sov_by_launch sov_res) of
             Inl e \<Rightarrow> Inl e
           | Inr cat \<Rightarrow>
               (case calculate_brand_impact new_launches (sov_by_launch sov_res) of
                  Inl e \<Rightarrow> Inl e
                | Inr br \<Rightarrow>
                    Inr \<lparr>portfolio_impact = pim,
                         category_impact = cat,
                         brand_impact = br,
                         launch_classification = classify_launches pim\<rparr>)))"

subsection \<open>New launch identification (new\_launch.py)\<close>

text \<open>
  \<^verbatim>\<open>_identify_new_launches\<close> (lines 61 to 73). \<^verbatim>\<open>self.df['date'].max()\<close> of a table
  without rows is \<^verbatim>\<open>NaT\<close>, against which every comparison is false: no product is
  selected.
\<close>

definition identify_new_launches :: "product list \<Rightarrow> txn list \<Rightarrow> int \<Rightarrow> product list" where
  "identify_new_launches products_df df months =
     (if df = [] then []
      else
        (let latest_date = Max (set (map t_date df));
             cutoff_date = add_months latest_date (- months)
         in sort_desc p_launch_date (filter (\<lambda>p. cutoff_date \<le> p_launch_date p) products_df)))"

text \<open>
  The body of the loop of \<^verbatim>\<open>_calculate_launch_performance\<close> (lines 80 to 127); \<open>None\<close>
  is the \<^verbatim>\<open>continue\<close> of line 88.
\<close>

definition launch_performance_row :: "txn list \<Rightarrow> product \<Rightarrow> launch option" where
  "launch_performance_row df p =
     (let ld = p_launch_date p;
          product_sales = filter (\<lambda>r. t_product_id r = p_product_id p) df;
          post_launch_sales = filter (\<lambda>r. ld \<le> t_date r) product_sales
      in if length post_launch_sales = 0 then None
         else
           (let total_revenue = sum_revenue post_launch_sales;
                total_units = sum_units post_launch_sales;
                total_transactions = length (remdups (map t_transaction_id post_launch_sales));
                first_3m_end = add_months ld 3;
                next_3m_end = add_months ld 6;
                first_3m_revenue = sum_revenue (filter (\<lambda>r. ld \<le> t_date r \<and> t_date r < first_3m_end) post_launch_sales);
                next_3m_revenue = sum_revenue (filter (\<lambda>r. first_3m_end \<le> t_date r \<and> t_date r < next_3m_end) post_launch_sales);
                growth_rate = (if first_3m_revenue > 0
                   then (next_3m_revenue - first_3m_revenue) / first_3m_revenue * 100 else 0);
                total_market_revenue = sum_revenue (filter (\<lambda>r. ld \<le> t_date r) df);
                market_share = (if total_market_revenue > 0
                   then total_revenue / total_market_revenue * 100 else 0)
            in Some \<lparr>l_product_id = p_product_id p,
                     l_product_name = p_product_name p,
                     l_brand = p_brand p,
                     l_type = p_type p,
                     l_launch_date = ld,
                     l_total_revenue = total_revenue,
                     l_total_units = total_units,
                     l_total_transactions = total_transactions,
                     l_growth_rate_pct = growth_rate,
                     l_market_share_pct = market_share,
                     l_performance_score = total_revenue * (1 + growth_rate / 100)\<rparr>))"

text \<open>\<^verbatim>\<open>_calculate_launch_performance\<close>: the rows as a DataFrame, sorted by score (lines 129, 130).\<close>

definition calculate_launch_performance :: "txn list \<Rightarrow> product list \<Rightarrow> py_error + launch frame" where
  "calculate_launch_performance df new_launches =
     sort_values_desc ''performance_score'' l_performance_score
       (DataFrame launch_columns (List.map_filter (launch_performance_row df) new_launches))"

text \<open>\<^verbatim>\<open>DataFrame.head(n)\<close>: the first \<open>n\<close> rows, or all but the last \<open>- n\<close> for a negative \<open>n\<close>.\<close>

definition head :: "int \<Rightarrow> 'a list \<Rightarrow> 'a list" where
  "head n xs = (if 0 \<le> n then take (nat n) xs else take (nat (int (length xs) + n)) xs)"

definition select_top_launches :: "launch frame \<Rightarrow> int \<Rightarrow> launch frame" where
  "select_top_launches launch_performance top_n =
     (if length (rows launch_performance) = 0 then empty_frame
      else launch_performance\<lparr>rows := head top_n (rows launch_performance)\<rparr>)"

text \<open>\<^verbatim>\<open>_identify_cannibalization_targets\<close> (lines 142 to 165).\<close>

definition identify_cannibalization_targets ::
  "product list \<Rightarrow> launch frame \<Rightarrow> (string \<times> string \<times> (string \<times> string \<times> date) list) list" where
  "identify_cannibalization_targets products_df top_launches =
     fold (\<lambda>l acc.
             let existing = filter (\<lambda>p. p_type p = l_type l \<and> p_brand p = l_brand l
                                    \<and> p_launch_date p < l_launch_date l) products_df
             in if length existing > 0 then
                  AList.update (l_product_id l)
                    (l_product_name l, map (\<lambda>p. (p_product_id p, p_product_name p, p_launch_date p)) existing) acc
                else acc)
       (rows top_launches) []"

record launch_results =
  new_launches :: "product list"
  launch_performance :: "launch frame"
  top_launches :: "launch frame"
  cannibalization_targets :: "(string \<times> string \<times> (string \<times> string \<times> date) list) list"

text \<open>
  \<^verbatim>\<open>NewLaunchIdentifier.execute\<close> (lines 27 to 59), without the printing: an exception of
  the scoring step ends the run before the top launches are selected.
\<close>

definition NewLaunchIdentifier_execute ::
  "product list \<Rightarrow> txn list \<Rightarrow> int \<Rightarrow> int \<Rightarrow> py_error + launch_results" where
  "NewLaunchIdentifier_execute products_df df months top_n =
     (let nl = identify_new_launches products_df df months in
      case calculate_launch_performance df nl of
        Inl e \<Rightarrow> Inl e
      | Inr perf \<Rightarrow>
          (let top = select_top_launches perf top_n in
           Inr \<lparr>new_launches = nl,
                launch_performance = perf,
                top_launches = top,
                cannibalization_targets = identify_cannibalization_targets products_df top\<rparr>))"

subsection \<open>Forecasting and ensembling (time\_series\_forecast.py)\<close>

text \<open>
  The monthly series is the list of its values; the month of a value is its position,
  counted from 0. A forecast that the libraries return with a date index is a list of
  pairs of month and value.

  The statistical libraries are parameters of the model:
  \<^item> \<open>adfuller\<close> gives the p-value of the stationarity test of a sample, or \<open>None\<close>
    when the library raises;
  \<^item> \<open>sarimax_fit\<close> gives, for a training sample, the fitted model as the function
    from the step \<open>h = 1, 2, \<dots>\<close> after the end of that sample to the forecast value, or
    \<open>None\<close> when fitting raises;
  \<^item> \<open>prophet_fit\<close> gives, for a training sample, the fitted model as the function
    from a month (counted from the start of the sample) to the triple of \<^verbatim>\<open>yhat\<close>,
    \<^verbatim>\<open>yhat_lower\<close> and \<^verbatim>\<open>yhat_upper\<close>, or \<open>None\<close> when fitting raises.
\<close>

record metrics =
  m_mse :: real
  m_rmse :: real
  m_mae :: real
  m_mape :: real

definition np_mean :: "real list \<Rightarrow> real" where
  "np_mean xs = sum_list xs / real (length xs)"

text \<open>
  The four metrics of lines 175 to 178. \<^verbatim>\<open>mean_squared_error\<close> raises \<^verbatim>\<open>ValueError\<close> on
  samples of different lengths and on empty samples. A test value of zero makes the
  division of MAPE infinite in numpy; that case is outside the model.
\<close>

definition calc_metrics :: "real list \<Rightarrow> real list \<Rightarrow> py_error + metrics" where
  "calc_metrics test forecast =
     (if length test \<noteq> length forecast \<or> test = [] then Inl ValueError
      else
        (let mse = np_mean (map2 (\<lambda>t f. (t - f)\<^sup>2) test forecast)
         in Inr \<lparr>m_mse = mse,
                 m_rmse = sqrt mse,
                 m_mae = np_mean (map2 (\<lambda>t f. \<bar>t - f\<bar>) test forecast),
                 m_mape = np_mean (map2 (\<lambda>t f. \<bar>(t - f) / t\<bar>) test forecast) * 100\<rparr>))"

text \<open>
  \<^verbatim>\<open>fitted_model.forecast(steps=k)\<close> of statsmodels: the \<open>k\<close> out-of-sample values that
  follow the end of the sample the model was fitted on, indexed by their months.
\<close>

definition sm_forecast :: "nat \<Rightarrow> (nat \<Rightarrow> real) \<Rightarrow> nat \<Rightarrow> (nat \<times> real) list" where
  "sm_forecast n_train fitted steps = map (\<lambda>h. (n_train + h - 1, fitted h)) [1..<Suc steps]"

record sarima_result =
  sr_forecast :: "(nat \<times> real) list"
  sr_future_forecast :: "(nat \<times> real) list"
  sr_metrics :: metrics
  sr_is_stationary :: bool

text \<open>
  \<^verbatim>\<open>_sarima_forecast\<close> (lines 150 to 194). \<open>test\<close> is the part of the series that follows
  \<open>train\<close>. Any exception inside the \<^verbatim>\<open>try\<close> gives the empty dict, here \<open>None\<close>.
\<close>

definition sarima_forecast ::
  "(real list \<Rightarrow> real option) \<Rightarrow> (real list \<Rightarrow> (nat \<Rightarrow> real) option) \<Rightarrow> real list \<Rightarrow> real list \<Rightarrow> nat
     \<Rightarrow> sarima_result option" where
  "sarima_forecast adfuller sarimax_fit train test forecast_horizon =
     (case adfuller train of
        None \<Rightarrow> None
      | Some p_value \<Rightarrow>
          (case sarimax_fit train of
             None \<Rightarrow> None
           | Some fitted_model \<Rightarrow>
               (let forecast = sm_forecast (length train) fitted_model (length test);
                    future_forecast = sm_forecast (length train) fitted_model forecast_horizon
                in case calc_metrics test (map snd forecast) of
                     Inl e \<Rightarrow> None
                   | Inr m \<Rightarrow>
                       Some \<lparr>sr_forecast = forecast,
                             sr_future_forecast = future_forecast,
                             sr_metrics = m,
                             sr_is_stationary = (p_value < 0.05)\<rparr>)))"

text \<open>
  \<^verbatim>\<open>model.make_future_dataframe(periods=k, freq='MS')\<close> of Prophet: the months of the
  training history followed by the next \<open>k\<close> months. \<^verbatim>\<open>model.predict\<close> gives one row per
  month of that frame.
\<close>

definition make_future_dataframe :: "nat \<Rightarrow> nat \<Rightarrow> nat list" where
  "make_future_dataframe n_train periods = [0..<n_train + periods]"

definition prophet_predict :: "(nat \<Rightarrow> real \<times> real \<times> real) \<Rightarrow> nat list \<Rightarrow> (nat \<times> real \<times> real \<times> real) list" where
  "prophet_predict model future = map (\<lambda>i. (i, model i)) future"

text \<open>\<^verbatim>\<open>xs.iloc[-k:]\<close>: the last \<open>k\<close> rows, and all rows when \<open>k\<close> is 0.\<close>

definition iloc_last :: "nat \<Rightarrow> 'a list \<Rightarrow> 'a list" where
  "iloc_last k xs = (if k = 0 then xs else drop (length xs - k) xs)"

text \<open>The rows of lines 223 to 225 from which the future forecast takes its values.\<close>

definition prophet_future_rows ::
  "(nat \<Rightarrow> real \<times> real \<times> real) \<Rightarrow> nat \<Rightarrow> nat \<Rightarrow> (nat \<times> real \<times> real \<times> real) list" where
  "prophet_future_rows model n_train forecast_horizon =
     iloc_last forecast_horizon (prophet_predict model (make_future_dataframe n_train forecast_horizon))"

record prophet_result =
  pr_forecast :: "(nat \<times> real) list"
  pr_future_forecast :: "real list"
  pr_confidence_lower :: "real list"
  pr_confidence_upper :: "real list"
  pr_metrics :: metrics

text \<open>
  \<^verbatim>\<open>_prophet_forecast\<close> (lines 196 to 252). The test forecast is given the index of
  \<open>test\<close>, the months after the training sample.
\<close>

definition prophet_forecast ::
  "(real list \<Rightarrow> (nat \<Rightarrow> real \<times> real \<times> real) option) \<Rightarrow> real list \<Rightarrow> real list \<Rightarrow> nat
     \<Rightarrow> prophet_result option" where
  "prophet_forecast prophet_fit train test forecast_horizon =
     (case prophet_fit train of
        None \<Rightarrow> None
      | Some model \<Rightarrow>
          (let forecast = prophet_predict model (make_future_dataframe (length train) (length test));
               test_rows = iloc_last (length test) forecast;
               test_pred = map (\<lambda>(i, yhat, lo, hi). yhat) test_rows;
               future_forecast = map (\<lambda>(i, yhat, lo, hi). yhat)
                  (prophet_future_rows model (length train) forecast_horizon)
           in case calc_metrics test test_pred of
                Inl e \<Rightarrow> None
              | Inr m \<Rightarrow>
                  Some \<lparr>pr_forecast = zip [length train..<length train + length test] test_pred,
                        pr_future_forecast = future_forecast,
                        pr_confidence_lower = map (\<lambda>(i, yhat, lo, hi). lo) test_rows,
                        pr_confidence_upper = map (\<lambda>(i, yhat, lo, hi). hi) test_rows,
                        pr_metrics = m\<rparr>))"

text \<open>
  Elementwise addition of two numpy arrays: equal lengths, or one array of length 1
  that is broadcast; any other pair of shapes raises \<^verbatim>\<open>ValueError\<close>.
\<close>

definition np_add :: "real list \<Rightarrow> real list \<Rightarrow> py_error + real list" where
  "np_add xs ys =
     (if length xs = length ys then Inr (map2 (+) xs ys)
      else if length xs = 1 then Inr (map (\<lambda>y. hd xs + y) ys)
      else if length ys = 1 then Inr (map (\<lambda>x. x + hd ys) xs)
      else Inl ValueError)"

text \<open>Lines 270 to 276: the two normalised weights.\<close>

definition ensemble_weights :: "real \<Rightarrow> real \<Rightarrow> real \<times> real" where
  "ensemble_weights sarima_mape prophet_mape =
     (let sarima_weight = 1 / (sarima_mape + 0.001);
          prophet_weight = 1 / (prophet_mape + 0.001);
          total_weight = sarima_weight + prophet_weight
      in (sarima_weight / total_weight, prophet_weight / total_weight))"

record ensemble_result =
  simple_ensemble :: "real list"
  weighted_ensemble :: "real list"
  metrics_simple :: metrics
  metrics_weighted :: metrics

text \<open>
  \<^verbatim>\<open>_create_ensemble_forecast\<close> (lines 254 to 307). An empty result dict of either model
  gives the empty dict, \<open>None\<close>; an exception of numpy or of the metrics is not caught.
\<close>

definition create_ensemble_forecast ::
  "sarima_result option \<Rightarrow> prophet_result option \<Rightarrow> real list \<Rightarrow> py_error + ensemble_result option" where
  "create_ensemble_forecast sarima_results prophet_results test =
     (case sarima_results of
        None \<Rightarrow> Inr None
      | Some s \<Rightarrow>
          (case prophet_results of
             None \<Rightarrow> Inr None
           | Some p \<Rightarrow>
               (let sv = map snd (sr_forecast s);
                    pv = map snd (pr_forecast p)
                in case np_add sv pv of
                     Inl e \<Rightarrow> Inl e
                   | Inr added \<Rightarrow>
                       (let ensemble_forecast = map (\<lambda>x. x / 2) added;
                            w = ensemble_weights (m_mape (sr_metrics s)) (m_mape (pr_metrics p))
                        in case np_add (map (\<lambda>x. x * fst w) sv) (map (\<lambda>x. x * snd w) pv) of
                             Inl e \<Rightarrow> Inl e
                           | Inr weighted \<Rightarrow>
                               (case calc_metrics test ensemble_forecast of
                                  Inl e \<Rightarrow> Inl e
                                | Inr ms \<Rightarrow>
                                    (case calc_metrics test weighted of
                                       Inl e \<Rightarrow> Inl e
                                     | Inr mw \<Rightarrow>
                                         Inr (Some \<lparr>simple_ensemble = ensemble_forecast,
                                                    weighted_ensemble = weighted,
                                                    metrics_simple = ms,
                                                    metrics_weighted = mw\<rparr>)))))))"

text \<open>
  The split and the three forecasting steps of \<^verbatim>\<open>TimeSeriesForecaster.execute\<close> (lines 67
  to 86), with both libraries available. \<^verbatim>\<open>int(len(ts_data) * 0.8)\<close> is \<open>4 * n div 5\<close>.
  The decomposition and the printing are not part of the model.
\<close>

definition train_size :: "real list \<Rightarrow> nat" where
  "train_size ts_data = 4 * length ts_data div 5"

definition execute_forecasts ::
  "(real list \<Rightarrow> real option) \<Rightarrow> (real list \<Rightarrow> (nat \<Rightarrow> real) option)
     \<Rightarrow> (real list \<Rightarrow> (nat \<Rightarrow> real \<times> real \<times> real) option) \<Rightarrow> real list \<Rightarrow> nat
     \<Rightarrow> py_error + (sarima_result option \<times> prophet_result option \<times> ensemble_result option)" where
  "execute_forecasts adfuller sarimax_fit prophet_fit ts_data forecast_horizon =
     (let train = take (train_size ts_data) ts_data;
          test = drop (train_size ts_data) ts_data;
          sarima = sarima_forecast adfuller sarimax_fit train test forecast_horizon;
          prophet = prophet_forecast prophet_fit train test forecast_horizon
      in case create_ensemble_forecast sarima prophet test of
           Inl e \<Rightarrow> Inl e
         | Inr ensemble \<Rightarrow> Inr (sarima, prophet, ensemble))"

subsection \<open>Sibling revenue, as the specification words it\<close>

text \<open>
  A row of product \<open>p\<close> in the category and of the brand of launch \<open>l\<close>; the revenue of
  \<open>p\<close> in the pre window and in the post window of \<open>l\<close>; and the products other than the
  launched one that have such a row in both windows.
\<close>

definition sibling_row :: "launch \<Rightarrow> string \<Rightarrow> txn \<Rightarrow> bool" where
  "sibling_row l p r \<longleftrightarrow> t_type r = l_type l \<and> t_brand r = l_brand l \<and> t_product_id r = p"

definition sibling_pre_revenue :: "txn list \<Rightarrow> int \<Rightarrow> launch \<Rightarrow> string \<Rightarrow> real" where
  "sibling_pre_revenue df w l p =
     sum_revenue (filter (\<lambda>r. sibling_row l p r \<and> pre_window w (l_launch_date l) (t_date r)) df)"

definition sibling_post_revenue :: "txn list \<Rightarrow> int \<Rightarrow> launch \<Rightarrow> string \<Rightarrow> real" where
  "sibling_post_revenue df w l p =
     sum_revenue (filter (\<lambda>r. sibling_row l p r \<and> post_window w (l_launch_date l) (t_date r)) df)"

definition siblings_in_both :: "txn list \<Rightarrow> int \<Rightarrow> launch \<Rightarrow> string set" where
  "siblings_in_both df w l =
     set (filter (\<lambda>p. p \<noteq> l_product_id l
                  \<and> list_ex (\<lambda>r. sibling_row l p r \<and> pre_window w (l_launch_date l) (t_date r)) df
                  \<and> list_ex (\<lambda>r. sibling_row l p r \<and> post_window w (l_launch_date l) (t_date r)) df)
            (map t_product_id df))"

subsection \<open>Summation before ratio, as the specification words it\<close>

text \<open>The SOV records of the launches of a list, for the launches that have one.\<close>

definition launch_records :: "(string \<times> sov_record) list \<Rightarrow> launch list \<Rightarrow> sov_record list" where
  "launch_records sov ls = List.map_filter (\<lambda>l. map_of sov (l_product_id l)) ls"

text \<open>
  A group row sums the two revenues over the launches of the group, takes the net impact
  and its percentage from the two sums, and the net impact is the sum of the per-launch
  differences.
\<close>

definition summed_then_ratio :: "(string \<times> sov_record) list \<Rightarrow> launch list \<Rightarrow> group_row \<Rightarrow> bool" where
  "summed_then_ratio sov ls g \<longleftrightarrow>
     g_total_new_revenue g = sum_list (map new_product_revenue (launch_records sov ls))
     \<and> g_total_lost_revenue g = sum_list (map cannibalized_revenue (launch_records sov ls))
     \<and> g_net_impact g = g_total_new_revenue g - g_total_lost_revenue g
     \<and> g_net_impact g = sum_list (map (\<lambda>s. new_product_revenue s - cannibalized_revenue s) (launch_records sov ls))
     \<and> g_net_impact_pct g =
         (if g_total_new_revenue g > 0 then g_net_impact g / g_total_new_revenue g * 100 else 0)"

subsection \<open>Example data\<close>

definition mk_txn :: "string \<Rightarrow> string \<Rightarrow> date \<Rightarrow> real \<Rightarrow> string \<Rightarrow> string \<Rightarrow> txn" where
  "mk_txn tid pid d amount ty br =
     \<lparr>t_transaction_id = tid, t_product_id = pid, t_date = d, t_units_sold = 1,
      t_revenue = amount, t_type = ty, t_brand = br\<rparr>"

definition mk_launch :: "string \<Rightarrow> string \<Rightarrow> string \<Rightarrow> date \<Rightarrow> launch" where
  "mk_launch pid br ty d =
     \<lparr>l_product_id = pid, l_product_name = pid, l_brand = br, l_type = ty,
      l_launch_date = d, l_total_revenue = 0, l_total_units = 0,
      l_total_transactions = 0, l_growth_rate_pct = 0, l_market_share_pct = 0,
      l_performance_score = 0\<rparr>"

text \<open>
  Launch \<open>N\<close> of brand \<open>X\<close> in category \<open>C\<close> on 2024-01-01. Sibling \<open>A\<close> falls from 100
  to 50, sibling \<open>B\<close> has no row before the launch and 80 after it, sibling \<open>D\<close> rises from
  10 to 60, competitor \<open>K\<close> (brand \<open>Y\<close>) falls from 300 to 250, and \<open>N\<close> itself sells 200.
\<close>

definition ex_launch :: launch where
  "ex_launch = mk_launch ''N'' ''X'' ''C'' (2024, 1, 1)"

definition ex_df :: "txn list" where
  "ex_df =
    [mk_txn ''t1'' ''A'' (2023, 9, 10) 100 ''C'' ''X'',
     mk_txn ''t2'' ''A'' (2024, 2, 10) 50 ''C'' ''X'',
     mk_txn ''t3'' ''B'' (2024, 3, 5) 80 ''C'' ''X'',
     mk_txn ''t4'' ''D'' (2023, 10, 5) 10 ''C'' ''X'',
     mk_txn ''t5'' ''D'' (2024, 4, 5) 60 ''C'' ''X'',
     mk_txn ''t6'' ''K'' (2023, 11, 5) 300 ''C'' ''Y'',
     mk_txn ''t7'' ''K'' (2024, 5, 5) 250 ''C'' ''Y'',
     mk_txn ''t8'' ''N'' (2024, 1, 15) 200 ''C'' ''X'']"

text \<open>
  Three launches with their SOV records given directly: \<open>N\<close> earns 200 and costs 50,
  \<open>S\<close> earns 1000 and costs 1150, \<open>U\<close> earns 100 and costs 105. \<open>N\<close> and \<open>S\<close> are of
  category \<open>C\<close> and brand \<open>X\<close>, \<open>U\<close> of category \<open>E\<close> and brand \<open>Y\<close>.
\<close>

definition mk_sov :: "string \<Rightarrow> real \<Rightarrow> real \<Rightarrow> sov_record" where
  "mk_sov pid npr cann =
     \<lparr>new_product_id = pid, new_product_name = pid, launch_date = (2024, 1, 1),
      new_product_revenue = npr, new_product_units = 0, cannibalized_revenue = cann,
      cannibalized_products = [], competitor_loss = 0, market_expansion = 0,
      cannibalization_pct = 0, competitor_pct = 0, expansion_pct = 0\<rparr>"

definition ex_sov3 :: "(string \<times> sov_record) list" where
  "ex_sov3 = [(''N'', mk_sov ''N'' 200 50), (''S'', mk_sov ''S'' 1000 1150), (''U'', mk_sov ''U'' 100 105)]"

definition ex_launches3 :: "launch frame" where
  "ex_launches3 =
     \<lparr>columns = launch_columns,
      rows = [mk_launch ''N'' ''X'' ''C'' (2024, 1, 1),
              mk_launch ''S'' ''X'' ''C'' (2024, 1, 1),
              mk_launch ''U'' ''Y'' ''E'' (2024, 1, 1)]\<rparr>"

text \<open>A product master whose products were all launched years before the last sale of \<open>ex_df\<close>.\<close>

definition ex_products :: "product list" where
  "ex_products =
     [\<lparr>p_product_id = ''A'', p_product_name = ''A'', p_brand = ''X'', p_type = ''C'', p_launch_date = (2020, 3, 1)\<rparr>,
      \<lparr>p_product_id = ''K'', p_product_name = ''K'', p_brand = ''Y'', p_type = ''C'', p_launch_date = (2021, 6, 1)\<rparr>]"

text \<open>
  The launch \<open>N\<close> again, with one sibling \<open>A\<close> whose only pre-window row has revenue 0
  and whose only post-window row is a refund of 10.
\<close>

definition ex_df_refund :: "txn list" where
  "ex_df_refund =
    [mk_txn ''t1'' ''A'' (2023, 9, 10) 0 ''C'' ''X'',
     mk_txn ''t2'' ''A'' (2024, 2, 10) (- 10) ''C'' ''X'',
     mk_txn ''t3'' ''N'' (2024, 1, 15) 200 ''C'' ''X'']"

text \<open>
  The launch \<open>N\<close> with a window of 12 months: sibling \<open>A\<close> sells 100 in each of
  January and February 2023 and 50 in each of November and December 2024.
\<close>

definition ex_df_wide :: "txn list" where
  "ex_df_wide =
    [mk_txn ''t1'' ''A'' (2023, 1, 10) 100 ''C'' ''X'',
     mk_txn ''t2'' ''A'' (2023, 2, 10) 100 ''C'' ''X'',
     mk_txn ''t3'' ''A'' (2024, 11, 10) 50 ''C'' ''X'',
     mk_txn ''t4'' ''A'' (2024, 12, 10) 50 ''C'' ''X'',
     mk_txn ''t5'' ''N'' (2024, 2, 1) 500 ''C'' ''X'']"

definition ex_launches1 :: "launch frame" where
  "ex_launches1 = \<lparr>columns = launch_columns, rows = [ex_launch]\<rparr>"

text \<open>
  Two model results for a test part \<open>[100, 200]\<close> at months 8 and 9, with MAPE 9.999 and
  4.999, so that the two weights are 1/3 and 2/3.
\<close>

definition ex_metrics :: "real \<Rightarrow> metrics" where
  "ex_metrics mape = \<lparr>m_mse = 0, m_rmse = 0, m_mae = 0, m_mape = mape\<rparr>"

definition ex_sarima :: sarima_result where
  "ex_sarima = \<lparr>sr_forecast = [(8, 110), (9, 220)], sr_future_forecast = [],
     sr_metrics = ex_metrics 9.999, sr_is_stationary = True\<rparr>"

definition ex_prophet :: prophet_result where
  "ex_prophet = \<lparr>pr_forecast = [(8, 90), (9, 180)], pr_future_forecast = [],
     pr_confidence_lower = [], pr_confidence_upper = [], pr_metrics = ex_metrics 4.999\<rparr>"

text \<open>
  A monthly series of ten values (months 0 to 9), a stationarity test and two fitted
  models that always succeed.
\<close>

definition ex_series :: "real list" where
  "ex_series = [100, 110, 120, 130, 140, 150, 160, 170, 180, 190]"

definition ex_adfuller :: "real list \<Rightarrow> real option" where
  "ex_adfuller train = Some 0.01"

definition ex_sarimax_fit :: "real list \<Rightarrow> (nat \<Rightarrow> real) option" where
  "ex_sarimax_fit train = Some (\<lambda>h. last train + 10 * real h)"

definition ex_prophet_model :: "nat \<Rightarrow> real \<times> real \<times> real" where
  "ex_prophet_model i = (100 + 10 * real i, 90 + 10 * real i, 110 + 10 * real i)"

definition ex_prophet_fit :: "real list \<Rightarrow> (nat \<Rightarrow> real \<times> real \<times> real) option" where
  "ex_prophet_fit train = Some ex_prophet_model"

section \<open>Properties\<close>

subsection \<open>The dict of SOV records\<close>

lemma update_set_cases:
  "(k, r) \<in> set (AList.update k' v al) \<Longrightarrow> (k = k' \<and> r = v) \<or> (k, r) \<in> set al"
  by (induction al) (auto split: if_splits)

lemma fold_update_cases:
  "(k, r) \<in> set (fold (\<lambda>l acc. AList.update (key l) (f l) acc) ls acc0) \<Longrightarrow>
     (k, r) \<in> set acc0 \<or> (\<exists>l\<in>set ls. k = key l \<and> r = f l)"
proof (induction ls arbitrary: acc0)
  case Nil
  then show ?case by simp
next
  case (Cons a ls)
  from Cons.IH[OF Cons.prems[simplified]] show ?case
    by (auto dest: update_set_cases)
qed

lemma sov_by_launch_cases:
  "(k, r) \<in> set (analyze_sov_by_launch df launches w) \<Longrightarrow>
     \<exists>l\<in>set launches. k = l_product_id l \<and> r = analyze_launch df w l"
  unfolding analyze_sov_by_launch_def by (drule fold_update_cases) simp

lemma sov_by_launch_single:
  "analyze_sov_by_launch df [l] w = [(l_product_id l, analyze_launch df w l)]"
  by (simp add: analyze_sov_by_launch_def)

subsection \<open>The cannibalization loop\<close>

lemma cannibalization_fst:
  "fst (cannibalization pre post acc) =
     fst acc + sum_list (map (\<lambda>(p, x). case map_of post p of None \<Rightarrow> 0 | Some y \<Rightarrow> max 0 (x - y)) pre)"
proof (induction pre post acc rule: cannibalization.induct)
  case (1 post acc)
  then show ?case by simp
next
  case (2 product_id pre rest post running prods)
  then show ?case
    by (cases "map_of post product_id") (auto simp: Let_def max_def)
qed

lemma cannibalization_fst_nonneg: "0 \<le> fst acc \<Longrightarrow> 0 \<le> fst (cannibalization pre post acc)"
proof -
  assume a: "0 \<le> fst acc"
  have "0 \<le> sum_list (map (\<lambda>(p, x). case map_of post p of None \<Rightarrow> 0 | Some y \<Rightarrow> max 0 (x - y)) pre)"
    by (rule sum_list_nonneg) (auto split: option.splits)
  with a show ?thesis by (simp add: cannibalization_fst)
qed

subsection \<open>C9: both losses are floored at zero\<close>

text \<open>
  Claim C9. In every SOV record produced by \<^verbatim>\<open>_analyze_sov_by_launch\<close>, for any launches,
  any transaction table and any window, \<open>cannibalized_revenue\<close> is at least 0 and
  \<open>competitor_loss\<close> is at least 0.
\<close>

theorem sov_losses_nonneg:
  "\<forall>(k, r) \<in> set (analyze_sov_by_launch df launches w).
     0 \<le> cannibalized_revenue r \<and> 0 \<le> competitor_loss r"
proof (clarify)
  fix k r assume "(k, r) \<in> set (analyze_sov_by_launch df launches w)"
  then obtain l where r: "r = analyze_launch df w l" by (auto dest: sov_by_launch_cases)
  have "0 \<le> fst (cannibalization (pre_revenue df w l) (post_revenue df w l) (0, []))"
    by (rule cannibalization_fst_nonneg) simp
  then show "0 \<le> cannibalized_revenue r \<and> 0 \<le> competitor_loss r"
    unfolding r analyze_launch_def by (simp add: Let_def)
qed

theorem sov_losses_nonneg_witness:
  "(''N'', analyze_launch ex_df 6 ex_launch) \<in> set (analyze_sov_by_launch ex_df [ex_launch] 6)
   \<and> 0 \<le> cannibalized_revenue (analyze_launch ex_df 6 ex_launch)
   \<and> 0 \<le> competitor_loss (analyze_launch ex_df 6 ex_launch)
   \<and> cannibalized_revenue (analyze_launch ex_df 6 ex_launch) = 50
   \<and> competitor_loss (analyze_launch ex_df 6 ex_launch) = 50"
proof -
  have mem: "(''N'', analyze_launch ex_df 6 ex_launch) \<in> set (analyze_sov_by_launch ex_df [ex_launch] 6)"
    by (simp add: sov_by_launch_single ex_launch_def mk_launch_def)
  have v1: "cannibalized_revenue (analyze_launch ex_df 6 ex_launch) = 50"
    by code_simp
  have v2: "competitor_loss (analyze_launch ex_df 6 ex_launch) = 50"
    by code_simp
  from sov_losses_nonneg [of ex_df "[ex_launch]" 6] mem v1 v2 show ?thesis
    by blast
qed

subsection \<open>Frames\<close>

lemma set_sort_desc: "set (sort_desc key xs) = set xs"
  by (simp add: sort_desc_def)

lemma set_unique: "set (unique xs) = set xs"
  by (simp add: unique_def)

lemma sort_values_desc_rows:
  "sort_values_desc by key df = Inr f \<Longrightarrow> set (rows f) = set (rows df)"
  by (auto simp: sort_values_desc_def set_sort_desc split: if_splits)

lemma sort_values_desc_ok:
  "by \<in> set cols \<Longrightarrow> rs \<noteq> [] \<Longrightarrow>
     \<exists>f. sort_values_desc by key (DataFrame cols rs) = Inr f \<and> set (rows f) = set rs"
  by (simp add: sort_values_desc_def DataFrame_def set_sort_desc)

lemma rows_DataFrame: "rows (DataFrame cols rs) = rs"
  by (simp add: DataFrame_def)

lemma set_map_filter: "set (List.map_filter f xs) = {y. \<exists>x\<in>set xs. f x = Some y}"
  by (induction xs) (auto split: option.splits)

subsection \<open>C2: net impact and launch type\<close>

text \<open>
  Claim C2. Every row of the table returned by \<^verbatim>\<open>_calculate_portfolio_impact\<close> belongs to
  a launch with a SOV record, carries that record's \<open>new_product_revenue\<close> and
  \<open>cannibalized_revenue\<close> (as \<open>lost_revenue\<close>), has \<open>net_impact\<close> equal to their
  difference, and has as \<open>launch_type\<close> the label chosen in order: Additive when
  \<open>net_impact > 0\<close>, else Substitutive when \<open>net_impact < - 0.1 * new_product_revenue\<close>,
  else Neutral; so exactly one of the three labels.
\<close>

theorem portfolio_impact_rows:
  assumes "calculate_portfolio_impact df nl sov w = Inr f" and "r \<in> set (rows f)"
  shows "\<exists>l\<in>set (rows nl). \<exists>s. map_of sov (l_product_id l) = Some s
           \<and> i_product_id r = l_product_id l
           \<and> i_new_product_revenue r = new_product_revenue s
           \<and> i_lost_revenue r = cannibalized_revenue s
           \<and> i_net_impact r = i_new_product_revenue r - i_lost_revenue r
           \<and> i_launch_type r =
               (if i_net_impact r > 0 then ''Additive''
                else if i_net_impact r < - 0.1 * i_new_product_revenue r then ''Substitutive''
                else ''Neutral'')
           \<and> (i_launch_type r = ''Additive'' \<or> i_launch_type r = ''Substitutive'' \<or> i_launch_type r = ''Neutral'')"
proof -
  from assms have "r \<in> set (List.map_filter (launch_impact df sov w) (rows nl))"
    unfolding calculate_portfolio_impact_def
    by (auto dest!: sort_values_desc_rows simp: rows_DataFrame)
  then obtain l where l: "l \<in> set (rows nl)" and r: "launch_impact df sov w l = Some r"
    by (auto simp: set_map_filter)
  from r obtain s where s: "map_of sov (l_product_id l) = Some s"
    by (auto simp: launch_impact_def split: option.splits)
  from r s have "i_product_id r = l_product_id l
           \<and> i_new_product_revenue r = new_product_revenue s
           \<and> i_lost_revenue r = cannibalized_revenue s
           \<and> i_net_impact r = i_new_product_revenue r - i_lost_revenue r
           \<and> i_launch_type r =
               (if i_net_impact r > 0 then ''Additive''
                else if i_net_impact r < - 0.1 * i_new_product_revenue r then ''Substitutive''
                else ''Neutral'')"
    by (auto simp: launch_impact_def Let_def)
  with l s show ?thesis by (auto split: if_splits)
qed

theorem portfolio_impact_rows_witness:
  "calculate_portfolio_impact [] ex_launches3 ex_sov3 6
     = Inr (projr (calculate_portfolio_impact [] ex_launches3 ex_sov3 6))
   \<and> map i_product_id (rows (projr (calculate_portfolio_impact [] ex_launches3 ex_sov3 6)))
       = [''N'', ''U'', ''S'']
   \<and> map i_net_impact (rows (projr (calculate_portfolio_impact [] ex_launches3 ex_sov3 6)))
       = [150, - 5, - 150]
   \<and> map i_launch_type (rows (projr (calculate_portfolio_impact [] ex_launches3 ex_sov3 6)))
       = [''Additive'', ''Neutral'', ''Substitutive'']
   \<and> i_net_impact (hd (rows (projr (calculate_portfolio_impact [] ex_launches3 ex_sov3 6))))
       = i_new_product_revenue (hd (rows (projr (calculate_portfolio_impact [] ex_launches3 ex_sov3 6))))
         - i_lost_revenue (hd (rows (projr (calculate_portfolio_impact [] ex_launches3 ex_sov3 6))))"
proof -
  let ?c = "calculate_portfolio_impact [] ex_launches3 ex_sov3 6"
  have "\<not> isl ?c" by code_simp
  then have eq: "?c = Inr (projr ?c)" by (cases ?c) auto
  have ids: "map i_product_id (rows (projr ?c)) = [''N'', ''U'', ''S'']" by code_simp
  have nets: "map i_net_impact (rows (projr ?c)) = [150, - 5, - 150]" by code_simp
  have types: "map i_launch_type (rows (projr ?c)) = [''Additive'', ''Neutral'', ''Substitutive'']"
    by code_simp
  from ids have "rows (projr ?c) \<noteq> []" by auto
  then have mem: "hd (rows (projr ?c)) \<in> set (rows (projr ?c))" by simp
  from portfolio_impact_rows [OF eq mem]
  have "i_net_impact (hd (rows (projr ?c)))
          = i_new_product_revenue (hd (rows (projr ?c))) - i_lost_revenue (hd (rows (projr ?c)))"
    by blast
  with eq ids nets types show ?thesis by blast
qed

subsection \<open>C3: no launches\<close>

lemma portfolio_impact_empty:
  "calculate_portfolio_impact df \<lparr>columns = cols, rows = []\<rparr> sov w = Inl (KeyError ''net_impact'')"
  by (simp add: calculate_portfolio_impact_def DataFrame_def sort_values_desc_def)

text \<open>
  Claim C3. On a launches table without rows (with or without columns),
  \<^verbatim>\<open>SOVAnalyzer.execute\<close> returns the three empty structures. Handed the same table and
  that result, \<^verbatim>\<open>PortfolioImpactAnalyzer.execute\<close> does not return a table without rows:
  its first step sorts the frame built from the empty list of rows by \<open>net_impact\<close>, a
  column that frame does not have, and the \<^verbatim>\<open>KeyError\<close> ends the run.
\<close>

theorem empty_launches_portfolio_raises:
  "SOVAnalyzer_execute ttest_ind df \<lparr>columns = cols, rows = []\<rparr> w
     = \<lparr>sov_by_launch = [], sov_breakdown = empty_frame, significance_tests = []\<rparr>
   \<and> PortfolioImpactAnalyzer_execute df \<lparr>columns = cols, rows = []\<rparr>
        (SOVAnalyzer_execute ttest_ind df \<lparr>columns = cols, rows = []\<rparr> w) w
     = Inl (KeyError ''net_impact'')"
  by (simp add: SOVAnalyzer_execute_def PortfolioImpactAnalyzer_execute_def portfolio_impact_empty)

subsection \<open>C6: no qualifying launches\<close>

lemma launch_performance_empty:
  "calculate_launch_performance df [] = Inl (KeyError ''performance_score'')"
  by (simp add: calculate_launch_performance_def DataFrame_def sort_values_desc_def)

text \<open>
  Claim C6. With a product master whose launch dates all lie before the lookback window,
  \<^verbatim>\<open>_identify_new_launches\<close> returns the empty list, but the run of
  \<^verbatim>\<open>NewLaunchIdentifier.execute\<close> does not return an empty scoring table and an empty
  selection: \<^verbatim>\<open>_calculate_launch_performance\<close> sorts the frame built from the empty list
  by \<open>performance_score\<close>, a column that frame does not have, and the \<^verbatim>\<open>KeyError\<close> ends
  the run before \<^verbatim>\<open>_select_top_launches\<close> and its guard for the empty table are reached.
\<close>

theorem no_launches_scoring_raises:
  "identify_new_launches ex_products ex_df 12 = []
   \<and> calculate_launch_performance ex_df (identify_new_launches ex_products ex_df 12)
       = Inl (KeyError ''performance_score'')
   \<and> NewLaunchIdentifier_execute ex_products ex_df 12 5 = Inl (KeyError ''performance_score'')"
proof -
  have e: "identify_new_launches ex_products ex_df 12 = []" by code_simp
  show ?thesis by (simp add: NewLaunchIdentifier_execute_def e launch_performance_empty)
qed

subsection \<open>C7: category and brand impact\<close>

lemma group_totals_fold:
  "fold (\<lambda>l (tn, tl). case map_of sov (l_product_id l) of
             None \<Rightarrow> (tn, tl)
           | Some sov_data \<Rightarrow> (tn + new_product_revenue sov_data, tl + cannibalized_revenue sov_data))
     ls (a, b)
   = (a + sum_list (map new_product_revenue (launch_records sov ls)),
      b + sum_list (map cannibalized_revenue (launch_records sov ls)))"
  by (induction ls arbitrary: a b)
     (auto simp: launch_records_def split: option.splits)

lemma group_totals_sum:
  "group_totals sov ls =
     (sum_list (map new_product_revenue (launch_records sov ls)),
      sum_list (map cannibalized_revenue (launch_records sov ls)))"
  unfolding group_totals_def by (simp add: group_totals_fold)

lemma sum_list_diff:
  "sum_list (map (\<lambda>s. f s - g s) xs) = sum_list (map f xs) - (sum_list (map g xs) :: real)"
  by (induction xs) auto

lemma group_impact_summed: "summed_then_ratio sov ls (group_impact sov k ls)"
  by (simp add: summed_then_ratio_def group_impact_def group_totals_sum Let_def sum_list_diff)

lemma group_impact_key: "g_key (group_impact sov k ls) = k"
  by (simp add: group_impact_def group_totals_sum Let_def)

text \<open>
  Claim C7. For a launches table with its \<open>type\<close> and \<open>brand\<close> columns and any launch
  \<open>l\<close> in it, \<^verbatim>\<open>_calculate_category_impact\<close> returns a table with a row for the category of
  \<open>l\<close>, and \<^verbatim>\<open>_calculate_brand_impact\<close> one with a row for its brand. In each row the two
  totals are the sums of \<open>new_product_revenue\<close> and \<open>cannibalized_revenue\<close> over the
  launches of the group (those that have a SOV record), \<open>net_impact\<close> is the difference of
  the totals and equals the sum of the per-launch differences, and \<open>net_impact_pct\<close> is
  taken from the totals.
\<close>

theorem group_impact_sums:
  assumes "''type'' \<in> set (columns nl)" and "''brand'' \<in> set (columns nl)" and "l \<in> set (rows nl)"
  shows "(\<exists>f g. calculate_category_impact nl sov = Inr f \<and> g \<in> set (rows f) \<and> g_key g = l_type l
            \<and> summed_then_ratio sov (filter (\<lambda>x. l_type x = l_type l) (rows nl)) g)
       \<and> (\<exists>f g. calculate_brand_impact nl sov = Inr f \<and> g \<in> set (rows f) \<and> g_key g = l_brand l
            \<and> summed_then_ratio sov (filter (\<lambda>x. l_brand x = l_brand l) (rows nl)) g)"
proof
  let ?cs = "unique (map l_type (rows nl))"
  let ?rs = "map (\<lambda>c. group_impact sov c (filter (\<lambda>x. l_type x = c) (rows nl))) ?cs"
  from assms(3) have c: "l_type l \<in> set ?cs" by (simp add: set_unique)
  then have ne: "?rs \<noteq> []" by auto
  have "''net_impact'' \<in> set category_columns" by (simp add: category_columns_def)
  from sort_values_desc_ok[OF this ne, of g_net_impact]
  obtain f where f: "sort_values_desc ''net_impact'' g_net_impact (DataFrame category_columns ?rs) = Inr f"
    and fs: "set (rows f) = set ?rs" by blast
  let ?g = "group_impact sov (l_type l) (filter (\<lambda>x. l_type x = l_type l) (rows nl))"
  from c have "?g \<in> set ?rs" by auto
  with f fs assms(1)
  show "\<exists>f g. calculate_category_impact nl sov = Inr f \<and> g \<in> set (rows f) \<and> g_key g = l_type l
            \<and> summed_then_ratio sov (filter (\<lambda>x. l_type x = l_type l) (rows nl)) g"
    unfolding calculate_category_impact_def
    by (intro exI[of _ f] exI[of _ ?g]) (simp add: group_impact_key group_impact_summed)
next
  let ?cs = "unique (map l_brand (rows nl))"
  let ?rs = "map (\<lambda>c. group_impact sov c (filter (\<lambda>x. l_brand x = c) (rows nl))) ?cs"
  from assms(3) have c: "l_brand l \<in> set ?cs" by (simp add: set_unique)
  then have ne: "?rs \<noteq> []" by auto
  have "''net_impact'' \<in> set brand_columns" by (simp add: brand_columns_def)
  from sort_values_desc_ok[OF this ne, of g_net_impact]
  obtain f where f: "sort_values_desc ''net_impact'' g_net_impact (DataFrame brand_columns ?rs) = Inr f"
    and fs: "set (rows f) = set ?rs" by blast
  let ?g = "group_impact sov (l_brand l) (filter (\<lambda>x. l_brand x = l_brand l) (rows nl))"
  from c have "?g \<in> set ?rs" by auto
  with f fs assms(2)
  show "\<exists>f g. calculate_brand_impact nl sov = Inr f \<and> g \<in> set (rows f) \<and> g_key g = l_brand l
            \<and> summed_then_ratio sov (filter (\<lambda>x. l_brand x = l_brand l) (rows nl)) g"
    unfolding calculate_brand_impact_def
    by (intro exI[of _ f] exI[of _ ?g]) (simp add: group_impact_key group_impact_summed)
qed

theorem group_impact_sums_witness:
  "''type'' \<in> set (columns ex_launches3) \<and> ''brand'' \<in> set (columns ex_launches3)
   \<and> hd (rows ex_launches3) \<in> set (rows ex_launches3)
   \<and> (\<exists>f g. calculate_category_impact ex_launches3 ex_sov3 = Inr f \<and> g \<in> set (rows f)
         \<and> g_key g = ''C'' \<and> g_total_new_revenue g = 1200 \<and> g_total_lost_revenue g = 1200
         \<and> g_net_impact g = 0 \<and> g_net_impact_pct g = 0)
   \<and> (\<exists>f g. calculate_brand_impact ex_launches3 ex_sov3 = Inr f \<and> g \<in> set (rows f)
         \<and> g_key g = ''X'' \<and> g_total_new_revenue g = 1200 \<and> g_total_lost_revenue g = 1200
         \<and> g_net_impact g = 0 \<and> g_net_impact_pct g = 0)"
proof -
  have h1: "''type'' \<in> set (columns ex_launches3)" by code_simp
  have h2: "''brand'' \<in> set (columns ex_launches3)" by code_simp
  have h3: "hd (rows ex_launches3) \<in> set (rows ex_launches3)"
    by (simp add: ex_launches3_def)
  have ty: "l_type (hd (rows ex_launches3)) = ''C''" by code_simp
  have br: "l_brand (hd (rows ex_launches3)) = ''X''" by code_simp
  have n1: "sum_list (map new_product_revenue
      (launch_records ex_sov3 (filter (\<lambda>x. l_type x = ''C'') (rows ex_launches3)))) = 1200"
    by code_simp
  have c1: "sum_list (map cannibalized_revenue
      (launch_records ex_sov3 (filter (\<lambda>x. l_type x = ''C'') (rows ex_launches3)))) = 1200"
    by code_simp
  have n2: "sum_list (map new_product_revenue
      (launch_records ex_sov3 (filter (\<lambda>x. l_brand x = ''X'') (rows ex_launches3)))) = 1200"
    by code_simp
  have c2: "sum_list (map cannibalized_revenue
      (launch_records ex_sov3 (filter (\<lambda>x. l_brand x = ''X'') (rows ex_launches3)))) = 1200"
    by code_simp
  from group_impact_sums [OF h1 h2 h3, of ex_sov3]
  obtain f g f' g' where
    a: "calculate_category_impact ex_launches3 ex_sov3 = Inr f" "g \<in> set (rows f)" "g_key g = ''C''"
       "summed_then_ratio ex_sov3 (filter (\<lambda>x. l_type x = ''C'') (rows ex_launches3)) g"
    and b: "calculate_brand_impact ex_launches3 ex_sov3 = Inr f'" "g' \<in> set (rows f')" "g_key g' = ''X''"
       "summed_then_ratio ex_sov3 (filter (\<lambda>x. l_brand x = ''X'') (rows ex_launches3)) g'"
    unfolding ty br by blast
  from a(4) n1 c1 have va: "g_total_new_revenue g = 1200 \<and> g_total_lost_revenue g = 1200
      \<and> g_net_impact g = 0 \<and> g_net_impact_pct g = 0"
    by (simp add: summed_then_ratio_def)
  from b(4) n2 c2 have vb: "g_total_new_revenue g' = 1200 \<and> g_total_lost_revenue g' = 1200
      \<and> g_net_impact g' = 0 \<and> g_net_impact_pct g' = 0"
    by (simp add: summed_then_ratio_def)
  from h1 h2 h3 a(1-3) va b(1-3) vb show ?thesis by blast
qed

subsection \<open>C1: cannibalized revenue is the sum of the floored per-sibling losses\<close>

lemma map_of_groupby:
  "map_of (groupby_product_revenue rs) p =
     (if p \<in> t_product_id ` set rs then Some (sum_revenue (filter (\<lambda>r. t_product_id r = p) rs)) else None)"
  unfolding groupby_product_revenue_def
  by (simp add: map_of_map_restrict restrict_map_def)

lemma cannibalization_groupby:
  "fst (cannibalization (groupby_product_revenue A) (groupby_product_revenue B) (0, [])) =
     (\<Sum>p \<in> t_product_id ` set A \<inter> t_product_id ` set B.
        max 0 (sum_revenue (filter (\<lambda>r. t_product_id r = p) A) - sum_revenue (filter (\<lambda>r. t_product_id r = p) B)))"
proof -
  let ?F = "\<lambda>p. sum_revenue (filter (\<lambda>r. t_product_id r = p) A)"
  let ?G = "\<lambda>p. sum_revenue (filter (\<lambda>r. t_product_id r = p) B)"
  let ?keys = "sort (remdups (map t_product_id A))"
  let ?h = "\<lambda>p. if p \<in> t_product_id ` set B then max 0 (?F p - ?G p) else 0"
  have "fst (cannibalization (groupby_product_revenue A) (groupby_product_revenue B) (0, []))
      = sum_list (map (\<lambda>(p, x). case map_of (groupby_product_revenue B) p of None \<Rightarrow> 0 | Some y \<Rightarrow> max 0 (x - y))
          (groupby_product_revenue A))"
    by (simp add: cannibalization_fst)
  also have "\<dots> = sum_list (map ?h ?keys)"
    unfolding groupby_product_revenue_def[of A]
    by (auto simp: map_of_groupby o_def intro!: arg_cong[where f=sum_list])
  also have "\<dots> = sum ?h (set ?keys)"
    by (rule sum_list_distinct_conv_sum_set) simp
  also have "\<dots> = sum ?h (t_product_id ` set A)" by simp
  also have "\<dots> = (\<Sum>p \<in> t_product_id ` set A \<inter> t_product_id ` set B. max 0 (?F p - ?G p))"
    by (simp add: sum.inter_restrict[symmetric])
  finally show ?thesis .
qed

lemma siblings_in_both_eq:
  "t_product_id ` set (filter (\<lambda>r. pre_window w (l_launch_date l) (t_date r)) (existing_products df l))
   \<inter> t_product_id ` set (filter (\<lambda>r. post_window w (l_launch_date l) (t_date r)) (existing_products df l))
   = siblings_in_both df w l"
  unfolding siblings_in_both_def existing_products_def sibling_row_def list_ex_iff
  by (auto simp: image_iff) metis+

lemma sibling_pre_eq:
  "p \<noteq> l_product_id l \<Longrightarrow>
   sum_revenue (filter (\<lambda>r. t_product_id r = p)
      (filter (\<lambda>r. pre_window w (l_launch_date l) (t_date r)) (existing_products df l)))
   = sibling_pre_revenue df w l p"
  unfolding sibling_pre_revenue_def existing_products_def sibling_row_def
  by (auto simp: conj_commute conj_left_commute intro!: arg_cong[where f=sum_revenue] filter_cong)

lemma sibling_post_eq:
  "p \<noteq> l_product_id l \<Longrightarrow>
   sum_revenue (filter (\<lambda>r. t_product_id r = p)
      (filter (\<lambda>r. post_window w (l_launch_date l) (t_date r)) (existing_products df l)))
   = sibling_post_revenue df w l p"
  unfolding sibling_post_revenue_def existing_products_def sibling_row_def
  by (auto simp: conj_commute conj_left_commute intro!: arg_cong[where f=sum_revenue] filter_cong)

lemma siblings_not_new: "p \<in> siblings_in_both df w l \<Longrightarrow> p \<noteq> l_product_id l"
  by (auto simp: siblings_in_both_def)

lemma analyze_launch_cannibalized:
  "cannibalized_revenue (analyze_launch df w l) =
     (\<Sum>p \<in> siblings_in_both df w l. max 0 (sibling_pre_revenue df w l p - sibling_post_revenue df w l p))"
proof -
  have "cannibalized_revenue (analyze_launch df w l)
      = fst (cannibalization (pre_revenue df w l) (post_revenue df w l) (0, []))"
    by (simp add: analyze_launch_def Let_def)
  also have "\<dots> = (\<Sum>p \<in> siblings_in_both df w l.
      max 0 (sum_revenue (filter (\<lambda>r. t_product_id r = p)
               (filter (\<lambda>r. pre_window w (l_launch_date l) (t_date r)) (existing_products df l)))
           - sum_revenue (filter (\<lambda>r. t_product_id r = p)
               (filter (\<lambda>r. post_window w (l_launch_date l) (t_date r)) (existing_products df l)))))"
    unfolding pre_revenue_def post_revenue_def cannibalization_groupby siblings_in_both_eq ..
  also have "\<dots> = (\<Sum>p \<in> siblings_in_both df w l. max 0 (sibling_pre_revenue df w l p - sibling_post_revenue df w l p))"
    by (rule sum.cong) (simp_all del: filter_filter add: sibling_pre_eq sibling_post_eq siblings_not_new)
  finally show ?thesis .
qed

text \<open>
  Claim C1. Every SOV record is that of one of the launches, and its
  \<open>cannibalized_revenue\<close> is the sum, over the other products of the launch's category
  and brand that have a row in both the pre window and the post window, of the maximum
  of 0 and pre-window revenue minus post-window revenue. Each sibling enters with its own
  floored loss, so a sibling without a pre-window row, or with a rise, adds nothing and
  offsets nothing.
\<close>

theorem cannibalized_revenue_sum:
  assumes "(k, r) \<in> set (analyze_sov_by_launch df launches w)"
  shows "\<exists>l\<in>set launches. k = l_product_id l \<and> r = analyze_launch df w l
           \<and> cannibalized_revenue r =
               (\<Sum>p \<in> siblings_in_both df w l.
                  max 0 (sibling_pre_revenue df w l p - sibling_post_revenue df w l p))"
  using sov_by_launch_cases[OF assms] by (auto simp: analyze_launch_cannibalized)

theorem cannibalized_revenue_sum_witness:
  "(''N'', analyze_launch ex_df 6 ex_launch) \<in> set (analyze_sov_by_launch ex_df [ex_launch] 6)
   \<and> siblings_in_both ex_df 6 ex_launch = {''A'', ''D''}
   \<and> sibling_pre_revenue ex_df 6 ex_launch ''A'' = 100 \<and> sibling_post_revenue ex_df 6 ex_launch ''A'' = 50
   \<and> sibling_pre_revenue ex_df 6 ex_launch ''B'' = 0 \<and> sibling_post_revenue ex_df 6 ex_launch ''B'' = 80
   \<and> sibling_pre_revenue ex_df 6 ex_launch ''D'' = 10 \<and> sibling_post_revenue ex_df 6 ex_launch ''D'' = 60
   \<and> cannibalized_revenue (analyze_launch ex_df 6 ex_launch) =
       (\<Sum>p \<in> siblings_in_both ex_df 6 ex_launch.
          max 0 (sibling_pre_revenue ex_df 6 ex_launch p - sibling_post_revenue ex_df 6 ex_launch p))
   \<and> cannibalized_revenue (analyze_launch ex_df 6 ex_launch) = 50"
proof -
  have mem: "(''N'', analyze_launch ex_df 6 ex_launch) \<in> set (analyze_sov_by_launch ex_df [ex_launch] 6)"
    by (simp add: sov_by_launch_single ex_launch_def mk_launch_def)
  have s: "siblings_in_both ex_df 6 ex_launch = {''A'', ''D''}" by code_simp
  have a: "sibling_pre_revenue ex_df 6 ex_launch ''A'' = 100" "sibling_post_revenue ex_df 6 ex_launch ''A'' = 50"
    by code_simp+
  have b: "sibling_pre_revenue ex_df 6 ex_launch ''B'' = 0" "sibling_post_revenue ex_df 6 ex_launch ''B'' = 80"
    by code_simp+
  have d: "sibling_pre_revenue ex_df 6 ex_launch ''D'' = 10" "sibling_post_revenue ex_df 6 ex_launch ''D'' = 60"
    by code_simp+
  from cannibalized_revenue_sum [OF mem]
  have e: "cannibalized_revenue (analyze_launch ex_df 6 ex_launch) =
       (\<Sum>p \<in> siblings_in_both ex_df 6 ex_launch.
          max 0 (sibling_pre_revenue ex_df 6 ex_launch p - sibling_post_revenue ex_df 6 ex_launch p))"
    by simp
  have v: "cannibalized_revenue (analyze_launch ex_df 6 ex_launch) = 50"
    unfolding e s by (simp add: a d)
  from mem s a b d e v show ?thesis by blast
qed

subsection \<open>C10: the entries of the list of cannibalized products\<close>

lemma cannibalization_snd_eq:
  "snd (cannibalization pre post acc) =
     snd acc @ concat (map (\<lambda>(p, x). case map_of post p of
         None \<Rightarrow> []
       | Some y \<Rightarrow> if y < x then
           [\<lparr>cp_product_id = p, cp_revenue_loss = x - y,
             cp_pct_change = (if x > 0 then (y - x) / x * 100 else 0)\<rparr>] else []) pre)"
proof (induction pre post acc rule: cannibalization.induct)
  case (1 post acc)
  then show ?case by simp
next
  case (2 product_id pre rest post running prods)
  then show ?case
    by (cases "map_of post product_id") (simp_all add: Let_def)
qed

lemma cannibalization_snd:
  assumes "cp \<in> set (snd (cannibalization pre post (0, [])))"
  shows "\<exists>p x y. (p, x) \<in> set pre \<and> map_of post p = Some y \<and> y < x
        \<and> cp = \<lparr>cp_product_id = p, cp_revenue_loss = x - y,
                 cp_pct_change = (if x > 0 then (y - x) / x * 100 else 0)\<rparr>"
proof -
  from assms obtain p x where px: "(p, x) \<in> set pre"
    and m: "cp \<in> set (case map_of post p of
         None \<Rightarrow> []
       | Some y \<Rightarrow> if y < x then
           [\<lparr>cp_product_id = p, cp_revenue_loss = x - y,
             cp_pct_change = (if x > 0 then (y - x) / x * 100 else 0)\<rparr>] else [])"
    unfolding cannibalization_snd_eq by auto
  from m obtain y where "map_of post p = Some y" "y < x"
    "cp = \<lparr>cp_product_id = p, cp_revenue_loss = x - y,
                 cp_pct_change = (if x > 0 then (y - x) / x * 100 else 0)\<rparr>"
    by (cases "map_of post p") (auto split: if_splits)
  with px show ?thesis by blast
qed

lemma groupby_entry:
  "(p, x) \<in> set (groupby_product_revenue rs) \<Longrightarrow>
     p \<in> t_product_id ` set rs \<and> x = sum_revenue (filter (\<lambda>r. t_product_id r = p) rs)"
  by (auto simp: groupby_product_revenue_def)

text \<open>
  Claim C10, as stated, fails: with a sibling whose pre-window revenue is 0 and whose
  post-window revenue is negative, the entry has \<open>pct_change = 0\<close>, through the guard of
  line 130.
\<close>

theorem cannibalized_pct_change_counterexample:
  "(''N'', analyze_launch ex_df_refund 6 ex_launch) \<in> set (analyze_sov_by_launch ex_df_refund [ex_launch] 6)
   \<and> cannibalized_products (analyze_launch ex_df_refund 6 ex_launch)
       = [\<lparr>cp_product_id = ''A'', cp_revenue_loss = 10, cp_pct_change = 0\<rparr>]"
proof -
  have mem: "(''N'', analyze_launch ex_df_refund 6 ex_launch)
      \<in> set (analyze_sov_by_launch ex_df_refund [ex_launch] 6)"
    by (simp add: sov_by_launch_single ex_launch_def mk_launch_def)
  have "cannibalized_products (analyze_launch ex_df_refund 6 ex_launch)
       = [\<lparr>cp_product_id = ''A'', cp_revenue_loss = 10, cp_pct_change = 0\<rparr>]"
    by code_simp
  with mem show ?thesis by simp
qed

text \<open>
  Claim C10, amended. In every SOV record, each entry of \<open>cannibalized_products\<close> is a
  sibling present in both windows whose post-window revenue is strictly below its
  pre-window revenue; its \<open>revenue_loss\<close> is that difference and is strictly positive;
  its \<open>pct_change\<close> is never positive, and is strictly negative exactly when the
  pre-window revenue is positive, which is the case whenever the post-window revenue is
  not negative.
\<close>

theorem cannibalized_products_entries:
  assumes "(k, r) \<in> set (analyze_sov_by_launch df launches w)"
    and "cp \<in> set (cannibalized_products r)"
  shows "\<exists>l\<in>set launches. k = l_product_id l
           \<and> cp_product_id cp \<in> siblings_in_both df w l
           \<and> sibling_post_revenue df w l (cp_product_id cp) < sibling_pre_revenue df w l (cp_product_id cp)
           \<and> cp_revenue_loss cp
                = sibling_pre_revenue df w l (cp_product_id cp) - sibling_post_revenue df w l (cp_product_id cp)
           \<and> 0 < cp_revenue_loss cp
           \<and> cp_pct_change cp \<le> 0
           \<and> (cp_pct_change cp < 0 \<longleftrightarrow> 0 < sibling_pre_revenue df w l (cp_product_id cp))
           \<and> (0 \<le> sibling_post_revenue df w l (cp_product_id cp) \<longrightarrow> cp_pct_change cp < 0)"
proof -
  from sov_by_launch_cases[OF assms(1)] obtain l where
    l: "l \<in> set launches" "k = l_product_id l" "r = analyze_launch df w l" by blast
  let ?A = "filter (\<lambda>r. pre_window w (l_launch_date l) (t_date r)) (existing_products df l)"
  let ?B = "filter (\<lambda>r. post_window w (l_launch_date l) (t_date r)) (existing_products df l)"
  from assms(2) l(3) have "cp \<in> set (snd (cannibalization (pre_revenue df w l) (post_revenue df w l) (0, [])))"
    by (simp add: analyze_launch_def Let_def)
  from cannibalization_snd[OF this] obtain p x y where
    px: "(p, x) \<in> set (pre_revenue df w l)" and py: "map_of (post_revenue df w l) p = Some y"
    and lt: "y < x"
    and cp: "cp = \<lparr>cp_product_id = p, cp_revenue_loss = x - y,
                 cp_pct_change = (if x > 0 then (y - x) / x * 100 else 0)\<rparr>"
    by auto
  from px have pA: "p \<in> t_product_id ` set ?A" and x: "x = sum_revenue (filter (\<lambda>r. t_product_id r = p) ?A)"
    unfolding pre_revenue_def by (auto dest!: groupby_entry simp del: filter_filter)
  from py have pB: "p \<in> t_product_id ` set ?B" and y: "y = sum_revenue (filter (\<lambda>r. t_product_id r = p) ?B)"
    unfolding post_revenue_def by (auto simp: map_of_groupby simp del: filter_filter split: if_splits)
  from pA pB have sib: "p \<in> siblings_in_both df w l"
    unfolding siblings_in_both_eq[symmetric] by blast
  then have ne: "p \<noteq> l_product_id l" by (rule siblings_not_new)
  from x ne have x': "x = sibling_pre_revenue df w l p" by (simp del: filter_filter add: sibling_pre_eq)
  from y ne have y': "y = sibling_post_revenue df w l p" by (simp del: filter_filter add: sibling_post_eq)
  have pct: "cp_pct_change cp \<le> 0 \<and> (cp_pct_change cp < 0 \<longleftrightarrow> 0 < x) \<and> (0 \<le> y \<longrightarrow> cp_pct_change cp < 0)"
  proof (cases "0 < x")
    case True
    with lt have "(y - x) / x * 100 < 0"
      by (simp add: divide_neg_pos)
    with True show ?thesis by (simp add: cp)
  next
    case False
    with lt show ?thesis by (simp add: cp)
  qed
  from l(1,2) sib lt pct show ?thesis
    unfolding x'[symmetric] y'[symmetric] by (auto simp: cp x' y')
qed


theorem cannibalized_products_entries_witness:
  "(''N'', analyze_launch ex_df 6 ex_launch) \<in> set (analyze_sov_by_launch ex_df [ex_launch] 6)
   \<and> cannibalized_products (analyze_launch ex_df 6 ex_launch)
       = [\<lparr>cp_product_id = ''A'', cp_revenue_loss = 50, cp_pct_change = - 50\<rparr>]
   \<and> ''A'' \<in> siblings_in_both ex_df 6 ex_launch
   \<and> sibling_post_revenue ex_df 6 ex_launch ''A'' < sibling_pre_revenue ex_df 6 ex_launch ''A''
   \<and> 0 \<le> sibling_post_revenue ex_df 6 ex_launch ''A''"
proof -
  let ?cp = "\<lparr>cp_product_id = ''A'', cp_revenue_loss = 50, cp_pct_change = - 50\<rparr>"
  have mem: "(''N'', analyze_launch ex_df 6 ex_launch) \<in> set (analyze_sov_by_launch ex_df [ex_launch] 6)"
    by (simp add: sov_by_launch_single ex_launch_def mk_launch_def)
  have cps: "cannibalized_products (analyze_launch ex_df 6 ex_launch) = [?cp]"
    by code_simp
  then have cp: "?cp \<in> set (cannibalized_products (analyze_launch ex_df 6 ex_launch))"
    by simp
  have post: "0 \<le> sibling_post_revenue ex_df 6 ex_launch ''A''" by code_simp
  from cannibalized_products_entries [OF mem cp]
  have "''A'' \<in> siblings_in_both ex_df 6 ex_launch
     \<and> sibling_post_revenue ex_df 6 ex_launch ''A'' < sibling_pre_revenue ex_df 6 ex_launch ''A''"
    by simp
  with mem cps post show ?thesis by blast
qed

subsection \<open>C4: the window of the significance tests\<close>

text \<open>
  Claim C4. With \<^verbatim>\<open>window_months = 12\<close>, sibling \<open>A\<close> is cannibalized and has two
  monthly observations in the pre window and two in the post window of the SOV
  decomposition, yet no test is recorded for it: \<^verbatim>\<open>_perform_significance_tests\<close> takes its
  monthly series from windows of 6 months (the local constant of line 218), in which
  \<open>A\<close> has no observation.
\<close>

theorem significance_window_fixed:
  "map cp_product_id (cannibalized_products (analyze_launch ex_df_wide 12 ex_launch)) = [''A'']
   \<and> monthly_pre ex_df_wide 12 (2024, 1, 1) ''A'' = [100, 100]
   \<and> monthly_post ex_df_wide 12 (2024, 1, 1) ''A'' = [50, 50]
   \<and> sov_by_launch (SOVAnalyzer_execute ttest_ind ex_df_wide ex_launches1 12)
        = [(''N'', analyze_launch ex_df_wide 12 ex_launch)]
   \<and> significance_tests (SOVAnalyzer_execute ttest_ind ex_df_wide ex_launches1 12) = [(''N'', [])]"
proof -
  have a: "cannibalized_products (analyze_launch ex_df_wide 12 ex_launch)
     = [\<lparr>cp_product_id = ''A'', cp_revenue_loss = 100, cp_pct_change = - 50\<rparr>]" by code_simp
  have b: "monthly_pre ex_df_wide 12 (2024, 1, 1) ''A'' = [100, 100]" by code_simp
  have c: "monthly_post ex_df_wide 12 (2024, 1, 1) ''A'' = [50, 50]" by code_simp
  have d: "monthly_pre ex_df_wide 6 (2024, 1, 1) ''A'' = []" by code_simp
  have ld: "launch_date (analyze_launch ex_df_wide 12 ex_launch) = (2024, 1, 1)" by code_simp
  have nonempty: "rows ex_launches1 = [ex_launch]" "''product_id'' \<in> set (columns ex_launches1)"
    by code_simp+
  have pid: "l_product_id ex_launch = ''N''" by code_simp
  have t: "test_target ttest_ind ex_df_wide (2024, 1, 1)
       \<lparr>cp_product_id = ''A'', cp_revenue_loss = 100, cp_pct_change = - 50\<rparr> = []"
    by (simp add: test_target_def d)
  have e: "sov_by_launch (SOVAnalyzer_execute ttest_ind ex_df_wide ex_launches1 12)
        = [(''N'', analyze_launch ex_df_wide 12 ex_launch)]"
    by (simp add: SOVAnalyzer_execute_def nonempty sov_by_launch_single pid Let_def)
  have f: "significance_tests (SOVAnalyzer_execute ttest_ind ex_df_wide ex_launches1 12) = [(''N'', [])]"
    by (simp add: SOVAnalyzer_execute_def nonempty sov_by_launch_single pid
        perform_significance_tests_def ld a t Let_def)
  from a b c e f show ?thesis by simp
qed


subsection \<open>C8: the weighted ensemble\<close>

lemma normalised_sum: "(x::real) + y \<noteq> 0 \<Longrightarrow> x / (x + y) + y / (x + y) = 1"
  by (simp add: add_divide_distrib[symmetric])

lemma ensemble_weights_props:
  assumes "0 < a" and "0 < b"
  shows "ensemble_weights a b =
           ((1 / (a + 0.001)) / (1 / (a + 0.001) + 1 / (b + 0.001)),
            (1 / (b + 0.001)) / (1 / (a + 0.001) + 1 / (b + 0.001)))"
    and "fst (ensemble_weights a b) + snd (ensemble_weights a b) = 1"
    and "0 < fst (ensemble_weights a b)" and "0 < snd (ensemble_weights a b)"
proof -
  let ?s = "1 / (a + 0.001)" and ?p = "1 / (b + 0.001)"
  from assms have s: "0 < ?s" and p: "0 < ?p" by simp_all
  then have t: "0 < ?s + ?p" by (rule add_pos_pos)
  show e: "ensemble_weights a b = (?s / (?s + ?p), ?p / (?s + ?p))"
    by (simp add: ensemble_weights_def Let_def)
  from t have "?s + ?p \<noteq> 0" by simp
  then have "?s / (?s + ?p) + ?p / (?s + ?p) = 1"
    by (rule normalised_sum)
  then show "fst (ensemble_weights a b) + snd (ensemble_weights a b) = 1"
    unfolding e by simp
  from s t show "0 < fst (ensemble_weights a b)" unfolding e by simp
  from p t show "0 < snd (ensemble_weights a b)" unfolding e by simp
qed

lemma calc_metrics_ok:
  "length test = length fc \<Longrightarrow> test \<noteq> [] \<Longrightarrow> \<exists>m. calc_metrics test fc = Inr m"
  by (simp add: calc_metrics_def Let_def)

text \<open>
  Claim C8. For two positive MAPE values, the two weights are \<open>1 / (MAPE + 0.001)\<close>
  divided by their sum; they are positive and sum to 1; and for model forecasts of the
  length of the test part, \<^verbatim>\<open>_create_ensemble_forecast\<close> returns a result whose weighted
  ensemble is, element by element, the first forecast times the first weight plus the
  second forecast times the second weight.
\<close>

theorem weighted_ensemble_convex:
  assumes "0 < m_mape (sr_metrics s)" and "0 < m_mape (pr_metrics p)"
    and "length (sr_forecast s) = length test" and "length (pr_forecast p) = length test"
    and "test \<noteq> []"
  shows "ensemble_weights (m_mape (sr_metrics s)) (m_mape (pr_metrics p)) =
           ((1 / (m_mape (sr_metrics s) + 0.001))
              / (1 / (m_mape (sr_metrics s) + 0.001) + 1 / (m_mape (pr_metrics p) + 0.001)),
            (1 / (m_mape (pr_metrics p) + 0.001))
              / (1 / (m_mape (sr_metrics s) + 0.001) + 1 / (m_mape (pr_metrics p) + 0.001)))
       \<and> fst (ensemble_weights (m_mape (sr_metrics s)) (m_mape (pr_metrics p)))
           + snd (ensemble_weights (m_mape (sr_metrics s)) (m_mape (pr_metrics p))) = 1
       \<and> 0 < fst (ensemble_weights (m_mape (sr_metrics s)) (m_mape (pr_metrics p)))
       \<and> 0 < snd (ensemble_weights (m_mape (sr_metrics s)) (m_mape (pr_metrics p)))
       \<and> (\<exists>e. create_ensemble_forecast (Some s) (Some p) test = Inr (Some e)
             \<and> length (weighted_ensemble e) = length test
             \<and> (\<forall>i<length test.
                   weighted_ensemble e ! i =
                     snd (sr_forecast s ! i) * fst (ensemble_weights (m_mape (sr_metrics s)) (m_mape (pr_metrics p)))
                     + snd (pr_forecast p ! i) * snd (ensemble_weights (m_mape (sr_metrics s)) (m_mape (pr_metrics p)))))"
proof -
  let ?w = "ensemble_weights (m_mape (sr_metrics s)) (m_mape (pr_metrics p))"
  let ?sv = "map snd (sr_forecast s)" and ?pv = "map snd (pr_forecast p)"
  let ?simple = "map (\<lambda>x. x / 2) (map2 (+) ?sv ?pv)"
  let ?weighted = "map2 (+) (map (\<lambda>x. x * fst ?w) ?sv) (map (\<lambda>x. x * snd ?w) ?pv)"
  from assms(3,4) have len: "length ?sv = length ?pv" by simp
  then have a1: "np_add ?sv ?pv = Inr (map2 (+) ?sv ?pv)" by (simp add: np_add_def)
  from len have a2: "np_add (map (\<lambda>x. x * fst ?w) ?sv) (map (\<lambda>x. x * snd ?w) ?pv) = Inr ?weighted"
    by (simp add: np_add_def)
  from assms(3,4,5) obtain ms where ms: "calc_metrics test ?simple = Inr ms"
    using calc_metrics_ok[of test ?simple] by auto
  from assms(3,4,5) obtain mw where mw: "calc_metrics test ?weighted = Inr mw"
    using calc_metrics_ok[of test ?weighted] by auto
  let ?e = "\<lparr>simple_ensemble = ?simple, weighted_ensemble = ?weighted,
             metrics_simple = ms, metrics_weighted = mw\<rparr>"
  have run: "create_ensemble_forecast (Some s) (Some p) test = Inr (Some ?e)"
    by (simp only: create_ensemble_forecast_def Let_def option.case a1 a2 sum.case ms mw)
  have ln: "length (weighted_ensemble ?e) = length test" using assms(3,4) by simp
  have el: "\<forall>i<length test. weighted_ensemble ?e ! i =
       snd (sr_forecast s ! i) * fst ?w + snd (pr_forecast p ! i) * snd ?w"
    using assms(3,4) by simp
  from run ln el have ex: "\<exists>e. create_ensemble_forecast (Some s) (Some p) test = Inr (Some e)
             \<and> length (weighted_ensemble e) = length test
             \<and> (\<forall>i<length test. weighted_ensemble e ! i =
                     snd (sr_forecast s ! i) * fst ?w + snd (pr_forecast p ! i) * snd ?w)"
    by blast
  from ensemble_weights_props[OF assms(1,2)] ex show ?thesis by blast
qed

theorem weighted_ensemble_convex_witness:
  "0 < m_mape (sr_metrics ex_sarima) \<and> 0 < m_mape (pr_metrics ex_prophet)
   \<and> length (sr_forecast ex_sarima) = length [100, 200 :: real]
   \<and> length (pr_forecast ex_prophet) = length [100, 200 :: real]
   \<and> ensemble_weights (m_mape (sr_metrics ex_sarima)) (m_mape (pr_metrics ex_prophet)) = (1 / 3, 2 / 3)
   \<and> (\<exists>e. create_ensemble_forecast (Some ex_sarima) (Some ex_prophet) [100, 200] = Inr (Some e)
         \<and> weighted_ensemble e ! 0 = 110 * (1 / 3) + 90 * (2 / 3)
         \<and> weighted_ensemble e ! 1 = 220 * (1 / 3) + 180 * (2 / 3))"
proof -
  have h1: "0 < m_mape (sr_metrics ex_sarima)" by (simp add: ex_sarima_def ex_metrics_def)
  have h2: "0 < m_mape (pr_metrics ex_prophet)" by (simp add: ex_prophet_def ex_metrics_def)
  have h3: "length (sr_forecast ex_sarima) = length [100, 200 :: real]" by (simp add: ex_sarima_def)
  have h4: "length (pr_forecast ex_prophet) = length [100, 200 :: real]" by (simp add: ex_prophet_def)
  have h5: "[100, 200 :: real] \<noteq> []" by simp
  have w: "ensemble_weights (m_mape (sr_metrics ex_sarima)) (m_mape (pr_metrics ex_prophet)) = (1 / 3, 2 / 3)"
    by (simp add: ensemble_weights_def Let_def ex_sarima_def ex_prophet_def ex_metrics_def)
  from weighted_ensemble_convex [OF h1 h2 h3 h4 h5]
  obtain e where e: "create_ensemble_forecast (Some ex_sarima) (Some ex_prophet) [100, 200] = Inr (Some e)"
    and el: "\<forall>i<length [100, 200 :: real]. weighted_ensemble e ! i =
       snd (sr_forecast ex_sarima ! i) * fst (ensemble_weights (m_mape (sr_metrics ex_sarima)) (m_mape (pr_metrics ex_prophet)))
       + snd (pr_forecast ex_prophet ! i) * snd (ensemble_weights (m_mape (sr_metrics ex_sarima)) (m_mape (pr_metrics ex_prophet)))"
    by blast
  have i0: "weighted_ensemble e ! 0 = 110 * (1 / 3) + 90 * (2 / 3)"
    using el[rule_format, of 0] unfolding w by (simp add: ex_sarima_def ex_prophet_def)
  have i1: "weighted_ensemble e ! 1 = 220 * (1 / 3) + 180 * (2 / 3)"
    using el[rule_format, of 1] unfolding w by (simp add: ex_sarima_def ex_prophet_def)
  from h1 h2 h3 h4 w e i0 i1 show ?thesis by blast
qed


subsection \<open>C5: the months of the two forecasts\<close>

lemma sm_forecast_months: "map fst (sm_forecast n f k) = [n..<n + k]"
proof -
  have "map fst (sm_forecast n f k) = map (\<lambda>h. n + h - 1) [1..<Suc k]"
    by (simp add: sm_forecast_def o_def)
  also have "\<dots> = map (\<lambda>h. n + h) [0..<k]"
    by (simp add: map_Suc_upt[symmetric] del: upt_Suc)
  also have "\<dots> = [n..<n + k]"
    by (simp add: map_add_upt add.commute)
  finally show ?thesis .
qed

lemma length_sm_forecast: "length (sm_forecast n f k) = k"
  by (simp add: sm_forecast_def)

lemma sarima_forecast_Some:
  assumes "adfuller train = Some pv" and "sarimax_fit train = Some f" and "test \<noteq> []"
  shows "\<exists>m. sarima_forecast adfuller sarimax_fit train test h =
           Some \<lparr>sr_forecast = sm_forecast (length train) f (length test),
                 sr_future_forecast = sm_forecast (length train) f h,
                 sr_metrics = m, sr_is_stationary = (pv < 0.05)\<rparr>"
proof -
  from calc_metrics_ok[of test "map snd (sm_forecast (length train) f (length test))"] assms(3)
  obtain m where "calc_metrics test (map snd (sm_forecast (length train) f (length test))) = Inr m"
    by (auto simp: length_sm_forecast)
  with assms(1,2) show ?thesis
    by (simp add: sarima_forecast_def Let_def)
qed

lemma iloc_last_upt: "0 < k \<Longrightarrow> iloc_last k (map g [0..<n + k]) = map g [n..<n + k]"
  by (simp add: iloc_last_def drop_map)

lemma prophet_future_rows_months:
  "0 < h \<Longrightarrow> map fst (prophet_future_rows model n h) = [n..<n + h]"
  by (simp add: prophet_future_rows_def prophet_predict_def make_future_dataframe_def
      iloc_last_upt o_def)

lemma prophet_forecast_Some:
  assumes "prophet_fit train = Some model" and "test \<noteq> []"
  shows "\<exists>r. prophet_forecast prophet_fit train test h = Some r
           \<and> map fst (pr_forecast r) = [length train..<length train + length test]
           \<and> pr_future_forecast r =
               map (\<lambda>(i, yhat, lo, hi). yhat) (prophet_future_rows model (length train) h)"
proof -
  let ?rows = "iloc_last (length test)
      (prophet_predict model (make_future_dataframe (length train) (length test)))"
  let ?pred = "map (\<lambda>(i, yhat, lo, hi). yhat) ?rows"
  from assms(2) have len: "length ?pred = length test"
    by (simp add: prophet_predict_def make_future_dataframe_def iloc_last_upt)
  with calc_metrics_ok[of test ?pred] assms(2)
  obtain m where m: "calc_metrics test ?pred = Inr m" by auto
  have "prophet_forecast prophet_fit train test h =
      Some \<lparr>pr_forecast = zip [length train..<length train + length test] ?pred,
            pr_future_forecast = map (\<lambda>(i, yhat, lo, hi). yhat) (prophet_future_rows model (length train) h),
            pr_confidence_lower = map (\<lambda>(i, yhat, lo, hi). lo) ?rows,
            pr_confidence_upper = map (\<lambda>(i, yhat, lo, hi). hi) ?rows,
            pr_metrics = m\<rparr>"
    by (simp only: prophet_forecast_def assms(1) option.case Let_def m sum.case)
  moreover from len have "map fst (zip [length train..<length train + length test] ?pred)
      = [length train..<length train + length test]"
    by (simp del: map_map)
  ultimately show ?thesis by simp
qed

text \<open>
  Claim C5. For the series of ten months (0 to 9) the training part is months 0 to 7 and
  the held-out part months 8 and 9. Both models give a test forecast for months 8 and 9.
  With a horizon of 12, the future forecast of either model is for months 8 to 19: it
  starts at the first month after the training part, so its first two values are again
  for the held-out months, and it ends at month 19 and not at month 21. A forecast
  beyond the end of the full series would be for months 10 to 21.
\<close>

theorem future_forecast_starts_after_training:
  "length ex_series = 10 \<and> train_size ex_series = 8
   \<and> map_option (\<lambda>r. map fst (sr_forecast r))
        (sarima_forecast ex_adfuller ex_sarimax_fit (take 8 ex_series) (drop 8 ex_series) 12)
      = Some [8, 9]
   \<and> map_option (\<lambda>r. map fst (sr_future_forecast r))
        (sarima_forecast ex_adfuller ex_sarimax_fit (take 8 ex_series) (drop 8 ex_series) 12)
      = Some [8, 9, 10, 11, 12, 13, 14, 15, 16, 17, 18, 19]
   \<and> map_option (\<lambda>r. map fst (pr_forecast r))
        (prophet_forecast ex_prophet_fit (take 8 ex_series) (drop 8 ex_series) 12)
      = Some [8, 9]
   \<and> map_option pr_future_forecast
        (prophet_forecast ex_prophet_fit (take 8 ex_series) (drop 8 ex_series) 12)
      = Some (map (\<lambda>(i, yhat, lo, hi). yhat) (prophet_future_rows ex_prophet_model 8 12))
   \<and> map fst (prophet_future_rows ex_prophet_model 8 12)
      = [8, 9, 10, 11, 12, 13, 14, 15, 16, 17, 18, 19]"
proof -
  have l: "length ex_series = 10" by code_simp
  have ts: "train_size ex_series = 8" by code_simp
  have lt: "length (take 8 ex_series) = 8" "length (drop 8 ex_series) = 2" "drop 8 ex_series \<noteq> []"
    by (simp_all add: ex_series_def)
  have u1: "[8..<8 + 2] = [8, 9 :: nat]" by code_simp
  have u2: "[8..<8 + 12] = [8, 9, 10, 11, 12, 13, 14, 15, 16, 17, 18, 19 :: nat]" by code_simp
  from sarima_forecast_Some[of ex_adfuller "take 8 ex_series" "0.01" ex_sarimax_fit
      "\<lambda>h. last (take 8 ex_series) + 10 * real h" "drop 8 ex_series" 12] lt(3)
  obtain m where s: "sarima_forecast ex_adfuller ex_sarimax_fit (take 8 ex_series) (drop 8 ex_series) 12 =
           Some \<lparr>sr_forecast = sm_forecast 8 (\<lambda>h. last (take 8 ex_series) + 10 * real h) 2,
                 sr_future_forecast = sm_forecast 8 (\<lambda>h. last (take 8 ex_series) + 10 * real h) 12,
                 sr_metrics = m, sr_is_stationary = (0.01 < (0.05 :: real))\<rparr>"
    unfolding lt(1,2) by (auto simp: ex_adfuller_def ex_sarimax_fit_def)
  from prophet_forecast_Some[of ex_prophet_fit "take 8 ex_series" ex_prophet_model "drop 8 ex_series" 12] lt(3)
  obtain r where p: "prophet_forecast ex_prophet_fit (take 8 ex_series) (drop 8 ex_series) 12 = Some r"
    "map fst (pr_forecast r) = [8..<8 + 2]"
    "pr_future_forecast r = map (\<lambda>(i, yhat, lo, hi). yhat) (prophet_future_rows ex_prophet_model 8 12)"
    unfolding lt(1,2) by (auto simp: ex_prophet_fit_def)
  have a: "map_option (\<lambda>r. map fst (sr_forecast r))
        (sarima_forecast ex_adfuller ex_sarimax_fit (take 8 ex_series) (drop 8 ex_series) 12) = Some [8, 9]"
    unfolding s by (simp only: option.map sarima_result.simps sm_forecast_months u1)
  have b: "map_option (\<lambda>r. map fst (sr_future_forecast r))
        (sarima_forecast ex_adfuller ex_sarimax_fit (take 8 ex_series) (drop 8 ex_series) 12)
      = Some [8, 9, 10, 11, 12, 13, 14, 15, 16, 17, 18, 19]"
    unfolding s by (simp only: option.map sarima_result.simps sm_forecast_months u2)
  have c: "map_option (\<lambda>r. map fst (pr_forecast r))
        (prophet_forecast ex_prophet_fit (take 8 ex_series) (drop 8 ex_series) 12) = Some [8, 9]"
    unfolding p(1) by (simp only: option.map p(2) u1)
  have d: "map_option pr_future_forecast
        (prophet_forecast ex_prophet_fit (take 8 ex_series) (drop 8 ex_series) 12)
      = Some (map (\<lambda>(i, yhat, lo, hi). yhat) (prophet_future_rows ex_prophet_model 8 12))"
    unfolding p(1) by (simp only: option.map p(3))
  have e: "map fst (prophet_future_rows ex_prophet_model 8 12)
      = [8, 9, 10, 11, 12, 13, 14, 15, 16, 17, 18, 19]"
    using prophet_future_rows_months[of 12 ex_prophet_model 8] unfolding u2 by simp
  from l ts a b c d e show ?thesis by blast
qed


end
